theory Spec2Isabelle
  imports Complex_Main "HOL-Library.Word" "HOL-Library.Signed_Division"
begin

unbundle bit_operations_syntax

section \<open>wmediumd: the medium engine of wmediumd.c\<close>

text \<open>
  The engine of \<^verbatim>\<open>wmediumd.c\<close> as HOL functions. C \<^verbatim>\<open>int\<close>, \<^verbatim>\<open>long\<close> and
  \<^verbatim>\<open>time_t\<close> values are \<open>int\<close>. The arithmetic of the send-time loops and of
  \<^verbatim>\<open>timespec_add_usec\<close> is done in 32-bit \<^verbatim>\<open>int\<close>, where an overflow is undefined:
  the model checks every intermediate value and ends in the fault \<open>Int_overflow\<close>
  when one leaves the range, as it ends in a fault at the two array accesses that can
  leave their array. C division truncates towards zero and is written \<open>sdiv\<close>. Bytes
  and the fields of wire structures are words. Calls into libnl are taken to succeed;
  \<^verbatim>\<open>printf\<close> output and the statistics counters are left out.
\<close>

subsection \<open>Constants and wire types\<close>

type_synonym u8 = "8 word"
type_synonym u32 = "32 word"
type_synonym u64 = "64 word"

definition ETH_ALEN :: nat where
  "ETH_ALEN = 6"

text \<open>
  Modelled from the spec: the macro \<^verbatim>\<open>IEEE80211_TX_MAX_RATES\<close> of ieee80211.h, which
  is not among the sources; the ladder has up to \<^verbatim>\<open>MAX_RATES\<close> rungs, typically 4.
\<close>
definition IEEE80211_TX_MAX_RATES :: nat where
  "IEEE80211_TX_MAX_RATES = 4"

text \<open>
  Modelled from the spec: the macro \<^verbatim>\<open>HWSIM_TX_STAT_ACK\<close> of wmediumd.h, which is
  not among the sources; the ACK bit is a bit mask of the flags word (bit 2 in the
  kernel's interface).
\<close>
definition HWSIM_TX_STAT_ACK :: u32 where
  "HWSIM_TX_STAT_ACK = 4"

text \<open>
  Modelled from the spec: \<^verbatim>\<open>struct hwsim_tx_rate\<close> of wmediumd.h, which is not among
  the sources; a pair of a rate index, a signed byte whose negative values mean
  that the ladder has no further rate, and an attempt count, an unsigned byte.
\<close>
record hwsim_tx_rate =
  idx :: u8
  count :: u8

definition index_to_rate :: "int list" where
  "index_to_rate = [60, 90, 120, 180, 240, 360, 480, 540]"

datatype fault = Rate_table_overrun | Ladder_overrun | Int_overflow

text \<open>\<^verbatim>\<open>index_to_rate[rate_idx]\<close>; an index outside the table has no defined value.\<close>
definition index_to_rate_at :: "int \<Rightarrow> int option" where
  "index_to_rate_at rate_idx =
     (if 0 \<le> rate_idx \<and> rate_idx < int (length index_to_rate)
      then Some (index_to_rate ! nat rate_idx) else None)"

subsection \<open>Data model\<close>

record timespec =
  tv_sec :: int
  tv_nsec :: int

text \<open>
  \<^verbatim>\<open>struct frame\<close>. The list link is the position in the queue; the field
  \<^verbatim>\<open>acked\<close> is never read or written and is left out. \<open>sender\<close> is the station
  pointer, here the position of the station in the station list. \<open>tx_rates\<close> is the
  array of \<^verbatim>\<open>IEEE80211_TX_MAX_RATES\<close> rungs, read at indices below that bound only.
  \<open>data\<close> is the memory at \<^verbatim>\<open>frame->data\<close>: its first \<open>data_len\<close> bytes are the
  payload and end the allocated block; a read at an index from \<open>data_len\<close> on is a
  read behind the block, and finds what the environment has there.
\<close>
record frame =
  expires :: timespec
  cookie :: u64
  flags :: u32
  tx_rates_count :: nat
  sender :: nat
  tx_rates :: "nat \<Rightarrow> hwsim_tx_rate"
  data_len :: nat
  data :: "nat \<Rightarrow> u8"

record wqueue =
  frames :: "frame list"
  cw_min :: int
  cw_max :: int

record station =
  addr :: "u8 list"
  data_queue :: wqueue
  mgmt_queue :: wqueue

text \<open>The two kinds of message the engine sends on the netlink socket.\<close>
datatype nl_msg =
    HWSIM_CMD_FRAME_msg (attr_addr_receiver: "u8 list") (attr_frame: "u8 list")
      (attr_rx_rate: u32) (attr_signal: int)
  | HWSIM_CMD_TX_INFO_FRAME_msg (attr_addr_transmitter: "u8 list") (attr_flags: u32)
      (attr_tx_signal: int) (attr_tx_info: "hwsim_tx_rate list") (attr_cookie: u64)

text \<open>
  \<^verbatim>\<open>struct wmediumd\<close>: \<open>timerfd\<close> is the \<^verbatim>\<open>it_value\<close> last handed to
  \<^verbatim>\<open>timerfd_settime\<close> (both fields zero disarm the timer), \<open>sock\<close> the messages sent
  on the socket so far, oldest first.
\<close>
record wmediumd =
  timerfd :: timespec
  sock :: "nl_msg list"
  stations :: "station list"

datatype hwsim_cmd = HWSIM_CMD_REGISTER | HWSIM_CMD_FRAME | HWSIM_CMD_TX_INFO_FRAME

text \<open>A message received from the kernel, with its attributes parsed.\<close>
record hwsim_msg =
  cmd :: hwsim_cmd
  in_addr_transmitter :: "u8 list option"
  in_frame :: "u8 list"
  in_flags :: u32
  in_tx_info :: "hwsim_tx_rate list"
  in_cookie :: u64

text \<open>
  What the engine takes from outside during one handler: the reading of the monotonic
  clock, the error model, the values \<^verbatim>\<open>drand48\<close> returns (numbered from 0 within the
  handler), and the contents of memory the code reads without having written it: the
  local \<^verbatim>\<open>min_expires\<close> of \<^verbatim>\<open>rearm_timer\<close>, the block \<^verbatim>\<open>malloc\<close> returns with
  the bytes behind it (\<open>malloc_data\<close>, by index from \<^verbatim>\<open>frame->data\<close>), and the eight
  bytes that follow a queue in its station (\<open>behind_queue\<close>, by the position of the
  station and whether the queue is the management queue).
\<close>
record env =
  clock_gettime :: timespec
  get_error_prob :: "real \<Rightarrow> int \<Rightarrow> nat \<Rightarrow> real"
  drand48 :: "nat \<Rightarrow> real"
  min_expires_uninit :: timespec
  malloc_ok :: bool
  malloc_data :: "nat \<Rightarrow> u8"
  malloc_tx_rates :: "nat \<Rightarrow> hwsim_tx_rate"
  behind_queue :: "nat \<Rightarrow> bool \<Rightarrow> int"

subsection \<open>Durations and time\<close>

definition INT_MAX :: int where
  "INT_MAX = 2147483647"

text \<open>The value lies in the range of a 32-bit \<^verbatim>\<open>int\<close>.\<close>
definition int_fits :: "int \<Rightarrow> bool" where
  "int_fits x \<longleftrightarrow> - INT_MAX - 1 \<le> x \<and> x \<le> INT_MAX"

text \<open>
  \<^verbatim>\<open>div_round\<close> and \<^verbatim>\<open>pkt_duration\<close> as formulas on \<open>int\<close>. They are the C functions
  wherever no intermediate value of the C expressions leaves the range of \<^verbatim>\<open>int\<close>,
  which \<open>pkt_duration_fits\<close> says; outside of it the C functions have no defined
  value. Lengths below \<open>2^16\<close>, all that a netlink attribute can carry, and the rates
  of the table are inside (lemma \<open>pkt_duration_fits_attr\<close>).
\<close>
definition div_round :: "int \<Rightarrow> int \<Rightarrow> int" where
  "div_round a b = (a + b - 1) sdiv b"

definition pkt_duration :: "int \<Rightarrow> int \<Rightarrow> int" where
  "pkt_duration len rate = 16 + 4 + 4 * div_round ((16 + 8 * len + 6) * 10) (4 * rate)"

definition pkt_duration_fits :: "int \<Rightarrow> int \<Rightarrow> bool" where
  "pkt_duration_fits len rate \<longleftrightarrow>
     int_fits len \<and> int_fits (8 * len) \<and> int_fits (16 + 8 * len) \<and>
     int_fits (16 + 8 * len + 6) \<and> int_fits ((16 + 8 * len + 6) * 10) \<and>
     int_fits (4 * rate) \<and> rate \<noteq> 0 \<and>
     int_fits ((16 + 8 * len + 6) * 10 + 4 * rate) \<and>
     int_fits ((16 + 8 * len + 6) * 10 + 4 * rate - 1) \<and>
     int_fits (4 * div_round ((16 + 8 * len + 6) * 10) (4 * rate)) \<and>
     int_fits (pkt_duration len rate)"

definition timespec_before :: "timespec \<Rightarrow> timespec \<Rightarrow> bool" where
  "timespec_before t1 t2 \<longleftrightarrow>
     tv_sec t1 < tv_sec t2 \<or> (tv_sec t1 = tv_sec t2 \<and> tv_nsec t1 < tv_nsec t2)"

text \<open>The time a \<^verbatim>\<open>struct timespec\<close> stands for, in nanoseconds.\<close>
definition timespec_ns :: "timespec \<Rightarrow> int" where
  "timespec_ns t = tv_sec t * 1000000000 + tv_nsec t"

definition timespec_add_usec :: "timespec \<Rightarrow> int \<Rightarrow> fault + timespec" where
  "timespec_add_usec t usec =
     (if usec * 1000 > INT_MAX \<or> usec * 1000 < - INT_MAX - 1 then Inl Int_overflow
      else
        let t1 = t\<lparr>tv_nsec := tv_nsec t + usec * 1000\<rparr>
        in if tv_nsec t1 \<ge> 1000000000
           then Inr (t1\<lparr>tv_sec := tv_sec t1 + 1, tv_nsec := tv_nsec t1 - 1000000000\<rparr>)
           else Inr t1)"

subsection \<open>Frame classification\<close>

text \<open>
  Modelled from the spec: \<^verbatim>\<open>struct ieee80211_hdr\<close> of ieee80211.h, which is not among
  the sources; the engine reads \<^verbatim>\<open>frame_control[0]\<close>, the first byte of the payload,
  and \<^verbatim>\<open>addr1\<close>, the six bytes after the frame control and duration fields of two
  bytes each.
\<close>
definition hdr_frame_control0 :: "frame \<Rightarrow> u8" where
  "hdr_frame_control0 frame = data frame 0"

definition hdr_addr1 :: "frame \<Rightarrow> u8 list" where
  "hdr_addr1 frame = map (data frame) [4 ..< 4 + ETH_ALEN]"

definition frame_is_mgmt :: "frame \<Rightarrow> bool" where
  "frame_is_mgmt frame \<longleftrightarrow> hdr_frame_control0 frame AND 0x0c = 0"

text \<open>Reads \<^verbatim>\<open>addr[0]\<close>, the first byte of an address of \<^verbatim>\<open>ETH_ALEN\<close> bytes.\<close>
definition is_multicast_ether_addr :: "u8 list \<Rightarrow> bool" where
  "is_multicast_ether_addr a \<longleftrightarrow> 0x01 AND hd a \<noteq> 0"

text \<open>\<^verbatim>\<open>memcmp(a, b, n) == 0\<close> on two buffers of at least \<open>n\<close> bytes.\<close>
definition memcmp_eq :: "u8 list \<Rightarrow> u8 list \<Rightarrow> nat \<Rightarrow> bool" where
  "memcmp_eq a b n \<longleftrightarrow> take n a = take n b"

subsection \<open>The timer\<close>

text \<open>
  Modelled from the spec: the macro \<^verbatim>\<open>list_first_entry\<close> of list.h, which is not
  among the sources; \<open>peek_head\<close> returns the first frame. For an empty queue the spec
  names no result, and the macro is taken as the Linux list macro
  \<^verbatim>\<open>list_entry((ptr)->next, type, member)\<close>: it never yields \<^verbatim>\<open>NULL\<close>, and on an empty
  list, whose head points to itself, the entry is the list head of the queue read as a
  \<^verbatim>\<open>struct frame\<close>. \<^verbatim>\<open>rearm_timer\<close> reads only \<^verbatim>\<open>expires\<close> of the entry, which is
  what this function returns. In \<^verbatim>\<open>struct wqueue\<close> the list head (two pointers) is
  followed by \<^verbatim>\<open>cw_min\<close> and \<^verbatim>\<open>cw_max\<close>, in \<^verbatim>\<open>struct frame\<close> the list link is followed
  by \<^verbatim>\<open>expires\<close>; on a little-endian machine with 64-bit pointers, \<^verbatim>\<open>tv_sec\<close> of the
  entry of an empty queue lies over \<^verbatim>\<open>cw_min\<close> (low half) and \<^verbatim>\<open>cw_max\<close> (high half),
  and \<^verbatim>\<open>tv_nsec\<close> over the eight bytes behind the queue, a list pointer of the station.
\<close>
definition list_first_entry_expires :: "env \<Rightarrow> nat \<Rightarrow> bool \<Rightarrow> wqueue \<Rightarrow> timespec" where
  "list_first_entry_expires e k mgmt queue =
     (case frames queue of
        frame # _ \<Rightarrow> expires frame
      | [] \<Rightarrow> \<lparr>tv_sec = cw_max queue * 4294967296 + cw_min queue mod 4294967296,
               tv_nsec = behind_queue e k mgmt\<rparr>)"

text \<open>
  One \<^verbatim>\<open>if (frame && (!set_min_expires || timespec_before(...)))\<close> block, for an entry
  with the expiry \<open>t\<close>; \<^verbatim>\<open>frame\<close> is never \<^verbatim>\<open>NULL\<close>. The pair is
  \<^verbatim>\<open>(set_min_expires, min_expires)\<close>.
\<close>
definition rearm_head :: "timespec \<Rightarrow> bool \<times> timespec \<Rightarrow> bool \<times> timespec" where
  "rearm_head t acc =
     (if \<not> fst acc \<or> timespec_before t (snd acc) then (True, t) else acc)"

text \<open>The body of the loop of \<^verbatim>\<open>rearm_timer\<close> for the station at position \<open>k\<close>.\<close>
definition rearm_station :: "env \<Rightarrow> nat \<Rightarrow> station \<Rightarrow> bool \<times> timespec \<Rightarrow> bool \<times> timespec" where
  "rearm_station e k st acc =
     rearm_head (list_first_entry_expires e k False (data_queue st))
       (rearm_head (list_first_entry_expires e k True (mgmt_queue st)) acc)"

text \<open>The loop of \<^verbatim>\<open>rearm_timer\<close> over the stations from position \<open>k\<close> on.\<close>
fun rearm_stations :: "env \<Rightarrow> nat \<Rightarrow> station list \<Rightarrow> bool \<times> timespec \<Rightarrow> bool \<times> timespec" where
  "rearm_stations e k [] acc = acc"
| "rearm_stations e k (st # rest) acc = rearm_stations e (k + 1) rest (rearm_station e k st acc)"

text \<open>\<^verbatim>\<open>rearm_timer\<close>. \<open>timerfd\<close> records the value handed to \<^verbatim>\<open>timerfd_settime\<close>; the
  code does not look at the result of the call, which can refuse a \<^verbatim>\<open>tv_nsec\<close> that
  is no count of nanoseconds.\<close>
definition rearm_timer :: "env \<Rightarrow> wmediumd \<Rightarrow> wmediumd" where
  "rearm_timer e ctx =
     (let acc = rearm_stations e 0 (stations ctx) (False, min_expires_uninit e)
      in ctx\<lparr>timerfd := snd acc\<rparr>)"



subsection \<open>Enqueue: the send-time computation of queue_frame\<close>

definition slot_time :: int where
  "slot_time = 9"

definition sifs :: int where
  "sifs = 16"

definition difs :: int where
  "difs = 2 * slot_time + sifs"

definition snr :: real where
  "snr = 15"

definition ack_time_usec :: int where
  "ack_time_usec = pkt_duration 14 (index_to_rate ! 0) + sifs"

text \<open>The locals of \<^verbatim>\<open>queue_frame\<close> that the two loops change; \<open>draws\<close> counts the
  calls of \<^verbatim>\<open>drand48\<close> made so far.\<close>
record xmit =
  send_time :: int
  cw :: int
  retries :: int
  is_acked :: bool
  draws :: nat

text \<open>The values of \<^verbatim>\<open>send_time += difs + pkt_duration(...)\<close>, with the duration \<open>d\<close>,
  and of \<^verbatim>\<open>retries++\<close> are in range.\<close>
definition send_fits :: "xmit \<Rightarrow> int \<Rightarrow> bool" where
  "send_fits s d \<longleftrightarrow>
     int_fits (difs + d) \<and> int_fits (send_time s + (difs + d)) \<and> int_fits (retries s + 1)"

text \<open>The values of the backoff block are in range, and the value shifted left is not
  negative.\<close>
definition backoff_fits :: "xmit \<Rightarrow> bool" where
  "backoff_fits s \<longleftrightarrow>
     0 \<le> cw s \<and> int_fits (cw s * slot_time) \<and>
     int_fits (send_time s + (cw s * slot_time) sdiv 2) \<and>
     int_fits (push_bit 1 (cw s)) \<and> int_fits (push_bit 1 (cw s) + 1)"

text \<open>
  The body of the inner loop for attempt \<open>j\<close>. It leaves the loop by \<^verbatim>\<open>break\<close> in
  exactly the two branches that set \<open>is_acked\<close>, and the loop is entered with
  \<open>is_acked\<close> false, so \<open>is_acked\<close> of the result tells whether the body broke out.
\<close>
definition attempt :: "env \<Rightarrow> wqueue \<Rightarrow> frame \<Rightarrow> bool \<Rightarrow> int \<Rightarrow> nat \<Rightarrow> xmit \<Rightarrow> fault + xmit" where
  "attempt e queue frame noack rate_idx j s =
     (case index_to_rate_at rate_idx of
        None \<Rightarrow> Inl Rate_table_overrun
      | Some rate \<Rightarrow>
          if \<not> pkt_duration_fits (int (data_len frame)) rate \<or>
             \<not> send_fits s (pkt_duration (int (data_len frame)) rate)
          then Inl Int_overflow
          else
            let s1 = s\<lparr>send_time := send_time s + (difs + pkt_duration (int (data_len frame)) rate),
                       retries := retries s + 1\<rparr>
            in if noack then Inr (s1\<lparr>is_acked := True\<rparr>)
               else if j > 0 \<and> \<not> backoff_fits s1 then Inl Int_overflow
               else
                 let s2 = (if j > 0
                           then s1\<lparr>send_time := send_time s1 + (cw s1 * slot_time) sdiv 2,
                                   cw := (if push_bit 1 (cw s1) + 1 > cw_max queue
                                          then cw_max queue else push_bit 1 (cw s1) + 1)\<rparr>
                           else s1);
                     choice = drand48 e (draws s2);
                     s3 = s2\<lparr>draws := draws s2 + 1\<rparr>
                 in if choice > get_error_prob e snr rate_idx (data_len frame)
                    then Inr (s3\<lparr>is_acked := True\<rparr>)
                    else if \<not> int_fits (send_time s3 + ack_time_usec) then Inl Int_overflow
                    else Inr (s3\<lparr>send_time := send_time s3 + ack_time_usec\<rparr>))"

text \<open>The inner loop \<^verbatim>\<open>for (j = 0; j < frame->tx_rates[i].count; j++)\<close>, from \<open>j\<close> on;
  \<open>n\<close> is the count of the rung. The result carries the final \<open>j\<close>.\<close>
function rung_loop ::
  "env \<Rightarrow> wqueue \<Rightarrow> frame \<Rightarrow> bool \<Rightarrow> int \<Rightarrow> nat \<Rightarrow> nat \<Rightarrow> xmit \<Rightarrow> fault + nat \<times> xmit" where
  "rung_loop e queue frame noack rate_idx n j s =
     (if j < n then
        (case attempt e queue frame noack rate_idx j s of
           Inl err \<Rightarrow> Inl err
         | Inr s' \<Rightarrow>
             if is_acked s' then Inr (j, s')
             else rung_loop e queue frame noack rate_idx n (j + 1) s')
      else Inr (j, s))"
  by pat_completeness auto
termination
  by (relation "measure (\<lambda>(e, queue, frame, noack, rate_idx, n, j, s). n - j)") auto

text \<open>
  The outer loop \<^verbatim>\<open>for (i = 0; i < IEEE80211_TX_MAX_RATES && !is_acked; i++)\<close>, from
  \<open>i\<close> on. The result carries the values of \<open>i\<close> and \<open>j\<close> after the loop: leaving by
  \<^verbatim>\<open>break\<close> on a negative rate index keeps \<open>i\<close>, while after an acknowledged attempt
  the increment \<^verbatim>\<open>i++\<close> still runs before the loop condition ends the loop.
\<close>
function ladder_loop ::
  "env \<Rightarrow> wqueue \<Rightarrow> frame \<Rightarrow> bool \<Rightarrow> nat \<Rightarrow> nat \<Rightarrow> xmit \<Rightarrow> fault + nat \<times> nat \<times> xmit" where
  "ladder_loop e queue frame noack i j s =
     (if i < IEEE80211_TX_MAX_RATES \<and> \<not> is_acked s then
        (let rate_idx = sint (idx (tx_rates frame i)) in
         if rate_idx < 0 then Inr (i, j, s)
         else
           (case rung_loop e queue frame noack rate_idx (unat (count (tx_rates frame i))) 0 s of
              Inl err \<Rightarrow> Inl err
            | Inr (j', s') \<Rightarrow> ladder_loop e queue frame noack (i + 1) j' s'))
      else Inr (i, j, s))"
  by pat_completeness auto
termination
  by (relation "measure (\<lambda>(e, queue, frame, noack, i, j, s). IEEE80211_TX_MAX_RATES - i)") auto

text \<open>The loop \<^verbatim>\<open>for (++i; i < IEEE80211_TX_MAX_RATES; i++)\<close> of the acknowledged
  branch, from \<open>i\<close> on.\<close>
function clear_rates :: "nat \<Rightarrow> (nat \<Rightarrow> hwsim_tx_rate) \<Rightarrow> (nat \<Rightarrow> hwsim_tx_rate)" where
  "clear_rates i rates =
     (if i < IEEE80211_TX_MAX_RATES
      then clear_rates (i + 1) (rates(i := (rates i)\<lparr>idx := - 1, count := - 1\<rparr>))
      else rates)"
  by pat_completeness auto
termination
  by (relation "measure (\<lambda>(i, rates). IEEE80211_TX_MAX_RATES - i)") auto

text \<open>
  The branch \<^verbatim>\<open>if (is_acked) { ... }\<close> with the values of \<open>i\<close> and \<open>j\<close> after the
  loops. With \<open>i = IEEE80211_TX_MAX_RATES\<close> the first assignment writes behind the
  array.
\<close>
definition ack_ladder :: "nat \<Rightarrow> nat \<Rightarrow> frame \<Rightarrow> fault + frame" where
  "ack_ladder i j frame =
     (if i < IEEE80211_TX_MAX_RATES then
        let rates = (tx_rates frame)(i := (tx_rates frame i)\<lparr>count := of_nat (j + 1)\<rparr>)
        in Inr (frame\<lparr>tx_rates := clear_rates (i + 1) rates,
                      flags := flags frame OR HWSIM_TX_STAT_ACK\<rparr>)
      else Inl Ladder_overrun)"

definition xmit_init :: "wqueue \<Rightarrow> xmit" where
  "xmit_init queue =
     \<lparr>send_time = 0, cw = cw_min queue, retries = 0, is_acked = False, draws = 0\<rparr>"

text \<open>
  What \<^verbatim>\<open>queue_frame\<close> makes of the frame for the queue it goes to: the two loops, the
  acknowledged branch and the expiry. \<open>j\<close> has no value before the first inner loop
  and is read only after one has run.
\<close>
definition queue_frame_fill :: "env \<Rightarrow> wqueue \<Rightarrow> frame \<Rightarrow> fault + frame" where
  "queue_frame_fill e queue frame =
     (let now = clock_gettime e;
          dest = hdr_addr1 frame;
          noack = (frame_is_mgmt frame \<or> is_multicast_ether_addr dest)
      in case ladder_loop e queue frame noack 0 0 (xmit_init queue) of
           Inl err \<Rightarrow> Inl err
         | Inr (i, j, s) \<Rightarrow>
             (case (if is_acked s then ack_ladder i j frame else Inr frame) of
                Inl err \<Rightarrow> Inl err
              | Inr frame' \<Rightarrow>
                  (case timespec_add_usec now (send_time s) of
                     Inl err \<Rightarrow> Inl err
                   | Inr target \<Rightarrow> Inr (frame'\<lparr>expires := target\<rparr>))))"

text \<open>\<^verbatim>\<open>frame_is_mgmt(frame) ? &station->mgmt_queue : &station->data_queue\<close>\<close>
definition frame_queue :: "station \<Rightarrow> frame \<Rightarrow> wqueue" where
  "frame_queue station frame =
     (if frame_is_mgmt frame then mgmt_queue station else data_queue station)"

definition list_add_tail :: "frame \<Rightarrow> wqueue \<Rightarrow> wqueue" where
  "list_add_tail frame queue = queue\<lparr>frames := frames queue @ [frame]\<rparr>"

text \<open>
  \<^verbatim>\<open>queue_frame\<close>; \<open>st\<close> is the station pointer, the position of a station in the list.
  The code links the frame into the queue first and fills it in through the pointer
  afterwards; the queue holds the filled-in frame when the function returns.
\<close>
definition queue_frame :: "env \<Rightarrow> wmediumd \<Rightarrow> nat \<Rightarrow> frame \<Rightarrow> fault + wmediumd" where
  "queue_frame e ctx st frame =
     (let station = stations ctx ! st;
          queue = frame_queue station frame
      in case queue_frame_fill e queue frame of
           Inl err \<Rightarrow> Inl err
         | Inr frame' \<Rightarrow>
             let station' = (if frame_is_mgmt frame
                             then station\<lparr>mgmt_queue := list_add_tail frame' queue\<rparr>
                             else station\<lparr>data_queue := list_add_tail frame' queue\<rparr>)
             in Inr (rearm_timer e (ctx\<lparr>stations := (stations ctx)[st := station']\<rparr>)))"

subsection \<open>Delivery\<close>

text \<open>\<^verbatim>\<open>send_cloned_frame_msg\<close> puts the constants 1 and -50 into the message, whatever
  rate index and signal it is called with.\<close>
definition send_cloned_frame_msg :: "u8 list \<Rightarrow> u8 list \<Rightarrow> int \<Rightarrow> int \<Rightarrow> nl_msg" where
  "send_cloned_frame_msg dst payload rate_idx signal = HWSIM_CMD_FRAME_msg dst payload 1 (- 50)"

definition send_tx_info_frame_nl ::
  "u8 list \<Rightarrow> u32 \<Rightarrow> int \<Rightarrow> (nat \<Rightarrow> hwsim_tx_rate) \<Rightarrow> u64 \<Rightarrow> nl_msg" where
  "send_tx_info_frame_nl src fl signal tx_attempts ck =
     HWSIM_CMD_TX_INFO_FRAME_msg src fl signal
       (map tx_attempts [0 ..< IEEE80211_TX_MAX_RATES]) ck"

text \<open>The loop over the stations in \<^verbatim>\<open>deliver_frame\<close>: the cloned frames it sends.\<close>
primrec deliver_frame_rx :: "u8 list \<Rightarrow> u8 list \<Rightarrow> frame \<Rightarrow> station list \<Rightarrow> nl_msg list" where
  "deliver_frame_rx src dest frame [] = []"
| "deliver_frame_rx src dest frame (station # rest) =
     (if memcmp_eq src (addr station) ETH_ALEN then deliver_frame_rx src dest frame rest
      else if is_multicast_ether_addr dest \<or> memcmp_eq dest (addr station) ETH_ALEN
           then send_cloned_frame_msg (addr station)
                  (map (data frame) [0 ..< data_len frame]) 1 35
                # deliver_frame_rx src dest frame rest
           else deliver_frame_rx src dest frame rest)"

text \<open>The messages \<^verbatim>\<open>deliver_frame\<close> sends, in order.\<close>
definition deliver_frame_msgs :: "wmediumd \<Rightarrow> frame \<Rightarrow> nl_msg list" where
  "deliver_frame_msgs ctx frame =
     (let dest = hdr_addr1 frame;
          src = addr (stations ctx ! sender frame);
          signal = 35
      in (if flags frame AND HWSIM_TX_STAT_ACK \<noteq> 0
          then deliver_frame_rx src dest frame (stations ctx) else [])
         @ [send_tx_info_frame_nl src (flags frame) signal (tx_rates frame) (cookie frame)])"

definition deliver_frame :: "wmediumd \<Rightarrow> frame \<Rightarrow> wmediumd" where
  "deliver_frame ctx frame = ctx\<lparr>sock := sock ctx @ deliver_frame_msgs ctx frame\<rparr>"

text \<open>\<^verbatim>\<open>deliver_expired_frames_queue\<close> on the frames of one queue: the frames left in
  the queue, and the context after the deliveries.\<close>
fun deliver_expired_frames_queue ::
  "wmediumd \<Rightarrow> frame list \<Rightarrow> timespec \<Rightarrow> frame list \<times> wmediumd" where
  "deliver_expired_frames_queue ctx [] now = ([], ctx)"
| "deliver_expired_frames_queue ctx (frame # rest) now =
     (if timespec_before (expires frame) now
      then deliver_expired_frames_queue (deliver_frame ctx frame) rest now
      else (frame # rest, ctx))"

text \<open>The body of the loop of \<^verbatim>\<open>deliver_expired_frames\<close> for the station at position
  \<open>k\<close>: the management queue, then the data queue.\<close>
definition deliver_expired_station :: "timespec \<Rightarrow> nat \<Rightarrow> wmediumd \<Rightarrow> wmediumd" where
  "deliver_expired_station now k ctx =
     (let (mq, ctx1) = deliver_expired_frames_queue ctx (frames (mgmt_queue (stations ctx ! k))) now;
          ctx2 = ctx1\<lparr>stations := (stations ctx1)
                   [k := (stations ctx1 ! k)\<lparr>mgmt_queue := (mgmt_queue (stations ctx1 ! k))\<lparr>frames := mq\<rparr>\<rparr>]\<rparr>;
          (dq, ctx3) = deliver_expired_frames_queue ctx2 (frames (data_queue (stations ctx2 ! k))) now
      in ctx3\<lparr>stations := (stations ctx3)
                   [k := (stations ctx3 ! k)\<lparr>data_queue := (data_queue (stations ctx3 ! k))\<lparr>frames := dq\<rparr>\<rparr>]\<rparr>)"

definition deliver_expired_frames :: "env \<Rightarrow> wmediumd \<Rightarrow> wmediumd" where
  "deliver_expired_frames e ctx =
     fold (deliver_expired_station (clock_gettime e)) [0 ..< length (stations ctx)] ctx"

definition timer_cb :: "env \<Rightarrow> wmediumd \<Rightarrow> wmediumd" where
  "timer_cb e ctx = rearm_timer e (deliver_expired_frames e ctx)"

subsection \<open>Incoming messages\<close>

text \<open>The position of the first station with the address, the station pointer.\<close>
fun get_station_by_addr_from :: "nat \<Rightarrow> station list \<Rightarrow> u8 list \<Rightarrow> nat option" where
  "get_station_by_addr_from k [] a = None"
| "get_station_by_addr_from k (station # rest) a =
     (if memcmp_eq (addr station) a ETH_ALEN then Some k
      else get_station_by_addr_from (k + 1) rest a)"

definition get_station_by_addr :: "wmediumd \<Rightarrow> u8 list \<Rightarrow> nat option" where
  "get_station_by_addr ctx a = get_station_by_addr_from 0 (stations ctx) a"

text \<open>
  The frame \<^verbatim>\<open>process_messages_cb\<close> allocates and fills from the attributes. The two
  \<^verbatim>\<open>memcpy\<close> calls leave the rest of the block as \<^verbatim>\<open>malloc\<close> returned it;
  \<open>expires\<close> is not written here, \<^verbatim>\<open>queue_frame\<close> writes it before anything reads it.
\<close>
definition new_frame :: "env \<Rightarrow> hwsim_msg \<Rightarrow> nat \<Rightarrow> frame" where
  "new_frame e m sndr =
     \<lparr>expires = \<lparr>tv_sec = 0, tv_nsec = 0\<rparr>,
      cookie = in_cookie m,
      flags = in_flags m,
      tx_rates_count = length (in_tx_info m),
      sender = sndr,
      tx_rates = (\<lambda>k. if k < min (length (in_tx_info m)) IEEE80211_TX_MAX_RATES
                       then in_tx_info m ! k else malloc_tx_rates e k),
      data_len = length (in_frame m),
      data = (\<lambda>k. if k < length (in_frame m) then in_frame m ! k else malloc_data e k)\<rparr>"

definition process_messages_cb :: "env \<Rightarrow> wmediumd \<Rightarrow> hwsim_msg \<Rightarrow> fault + wmediumd" where
  "process_messages_cb e ctx m =
     (if cmd m = HWSIM_CMD_FRAME then
        (case in_addr_transmitter m of
           None \<Rightarrow> Inr ctx
         | Some src \<Rightarrow>
             (case get_station_by_addr ctx src of
                None \<Rightarrow> Inr ctx
              | Some sndr \<Rightarrow>
                  if \<not> malloc_ok e then Inr ctx
                  else queue_frame e ctx sndr (new_frame e m sndr)))
      else Inr ctx)"

subsection \<open>Bounds of the send-time computation\<close>




subsection \<open>Initialisation and concrete scenarios\<close>

definition wqueue_init :: "int \<Rightarrow> int \<Rightarrow> wqueue" where
  "wqueue_init cmin cmax = \<lparr>frames = [], cw_min = cmin, cw_max = cmax\<rparr>"

text \<open>The station \<^verbatim>\<open>main\<close> creates for one configured address.\<close>
definition station_init :: "u8 list \<Rightarrow> station" where
  "station_init a = \<lparr>addr = a, data_queue = wqueue_init 15 1023, mgmt_queue = wqueue_init 3 7\<rparr>"

text \<open>The context \<^verbatim>\<open>main\<close> builds before it enters the event loop; a new timerfd is
  disarmed.\<close>
definition wmediumd_init :: "u8 list list \<Rightarrow> wmediumd" where
  "wmediumd_init addrs =
     \<lparr>timerfd = \<lparr>tv_sec = 0, tv_nsec = 0\<rparr>, sock = [], stations = map station_init addrs\<rparr>"

definition sta_A :: "u8 list" where
  "sta_A = [2, 0, 0, 0, 0, 1]"

definition sta_B :: "u8 list" where
  "sta_B = [2, 0, 0, 0, 0, 2]"

definition sta_C :: "u8 list" where
  "sta_C = [2, 0, 0, 0, 0, 3]"

text \<open>An environment with the clock at \<open>s\<close> seconds and \<open>ns\<close> nanoseconds, the error
  probability \<open>p\<close> for every rate and length, and every draw equal to one half.\<close>
definition example_env :: "int \<Rightarrow> int \<Rightarrow> real \<Rightarrow> env" where
  "example_env s ns p =
     \<lparr>clock_gettime = \<lparr>tv_sec = s, tv_nsec = ns\<rparr>,
      get_error_prob = (\<lambda>_ _ _. p), drand48 = (\<lambda>_. 1 / 2),
      min_expires_uninit = \<lparr>tv_sec = 7, tv_nsec = 7\<rparr>, malloc_ok = True,
      malloc_data = (\<lambda>_. 0), malloc_tx_rates = (\<lambda>_. \<lparr>idx = 0, count = 0\<rparr>),
      behind_queue = (\<lambda>_ _. 93824992235520)\<rparr>"

text \<open>A frame message from station A: first frame-control byte \<open>fc\<close>, \<open>addr1 = dest\<close>,
  \<open>pad\<close> bytes after the ten header bytes.\<close>
definition frame_msg :: "u8 \<Rightarrow> u8 list \<Rightarrow> nat \<Rightarrow> u32 \<Rightarrow> hwsim_tx_rate list \<Rightarrow> hwsim_msg" where
  "frame_msg fc dest pad fl ladder =
     \<lparr>cmd = HWSIM_CMD_FRAME, in_addr_transmitter = Some sta_A,
      in_frame = [fc, 0, 0, 0] @ dest @ replicate pad 0,
      in_flags = fl, in_tx_info = ladder, in_cookie = 0x1234\<rparr>"

definition one_try :: "hwsim_tx_rate list" where
  "one_try = [\<lparr>idx = 0, count = 1\<rparr>, \<lparr>idx = - 1, count = 0\<rparr>,
              \<lparr>idx = - 1, count = 0\<rparr>, \<lparr>idx = - 1, count = 0\<rparr>]"

text \<open>Station A sends a data frame of 200 bytes to B at time 100 s; the attempt
  succeeds.\<close>
definition after_long :: "fault + wmediumd" where
  "after_long = process_messages_cb (example_env 100 0 0) (wmediumd_init [sta_A, sta_B])
     (frame_msg 8 sta_B 190 0 one_try)"

text \<open>One microsecond later A sends a data frame of 24 bytes to B.\<close>
definition after_short :: "fault + wmediumd" where
  "after_short = process_messages_cb (example_env 100 1000 0) (projr after_long)
     (frame_msg 8 sta_B 14 0 one_try)"

text \<open>Another microsecond later B sends a data frame of 24 bytes to A.\<close>
definition after_B :: "fault + wmediumd" where
  "after_B = process_messages_cb (example_env 100 2000 0) (projr after_short)
     ((frame_msg 8 sta_A 14 0 one_try)\<lparr>in_addr_transmitter := Some sta_B\<rparr>)"

definition ladder4 :: "hwsim_tx_rate list" where
  "ladder4 = [\<lparr>idx = 0, count = 3\<rparr>, \<lparr>idx = 1, count = 2\<rparr>,
              \<lparr>idx = 2, count = 1\<rparr>, \<lparr>idx = 3, count = 1\<rparr>]"

text \<open>A management frame (a beacon) of 24 bytes from A with \<open>addr1 = B\<close> and four
  rungs, as \<^verbatim>\<open>process_messages_cb\<close> builds it, in an environment where every attempt
  that waits for an acknowledgement fails.\<close>
definition mgmt_frame :: frame where
  "mgmt_frame = new_frame (example_env 100 0 1) (frame_msg 0x80 sta_B 14 0 ladder4) 0"

text \<open>A broadcast data frame of 24 bytes from A, filled in for A's data queue.\<close>
definition broadcast_fill :: "fault + frame" where
  "broadcast_fill = queue_frame_fill (example_env 100 0 0) (wqueue_init 15 1023)
     (new_frame (example_env 100 0 0) (frame_msg 8 [255, 255, 255, 255, 255, 255] 14 0 one_try) 0)"

definition two_tries :: "hwsim_tx_rate list" where
  "two_tries = [\<lparr>idx = 0, count = 2\<rparr>, \<lparr>idx = - 1, count = 0\<rparr>,
                \<lparr>idx = - 1, count = 0\<rparr>, \<lparr>idx = - 1, count = 0\<rparr>]"

text \<open>A sends a data frame of 24 bytes to B whose flags already carry the ACK bit, with
  two attempts at rate index 0; the error probability is 1, so both attempts fail.\<close>
definition after_unacked :: "fault + wmediumd" where
  "after_unacked = process_messages_cb (example_env 100 0 1) (wmediumd_init [sta_A, sta_B])
     (frame_msg 8 sta_B 14 4 two_tries)"


text \<open>A ladder whose first rung names rate index 0 and allows no attempt.\<close>
definition zero_count :: "hwsim_tx_rate list" where
  "zero_count = [\<lparr>idx = 0, count = 0\<rparr>, \<lparr>idx = - 1, count = 0\<rparr>,
                 \<lparr>idx = - 1, count = 0\<rparr>, \<lparr>idx = - 1, count = 0\<rparr>]"

text \<open>A sends a data frame of 24 bytes to B with that ladder at time 100 s.\<close>
definition after_zero_count :: "fault + wmediumd" where
  "after_zero_count = process_messages_cb (example_env 100 0 0) (wmediumd_init [sta_A, sta_B])
     (frame_msg 8 sta_B 14 0 zero_count)"

text \<open>A data frame of 24 bytes from A to B with two attempts at rate index 0, and its
  enqueueing at time 100 s with error probability 1: both attempts fail.\<close>
definition two_tries_frame :: frame where
  "two_tries_frame = new_frame (example_env 100 0 1) (frame_msg 8 sta_B 14 0 two_tries) 0"

definition after_two_tries :: "fault + wmediumd" where
  "after_two_tries =
     queue_frame (example_env 100 0 1) (wmediumd_init [sta_A, sta_B]) 0 two_tries_frame"



section \<open>Auxiliary facts\<close>

declare rung_loop.simps [simp del] ladder_loop.simps [simp del] clear_rates.simps [simp del]

lemma div_round_pos: "0 \<le> a \<Longrightarrow> 0 < b \<Longrightarrow> div_round a b = (a - 1) div b + 1"
proof -
  assume a: "0 \<le> a" "0 < b"
  have "a + b - 1 = (a - 1) + b" by simp
  then have eq: "(a + b - 1) div b = (a - 1) div b + 1"
    using a by (metis div_add_self2 less_irrefl)
  have "(a + b - 1) sdiv b = (a + b - 1) div b"
  proof (cases "a + b - 1 = 0")
    case True
    then show ?thesis by simp
  next
    case False
    with a have "0 < a + b - 1" by simp
    with a show ?thesis by (simp add: signed_divide_int_def)
  qed
  with eq show ?thesis by (simp add: div_round_def)
qed

lemma pkt_duration_ge: "0 < rate \<Longrightarrow> 0 \<le> len \<Longrightarrow> 20 \<le> pkt_duration len rate"
  by (simp add: pkt_duration_def div_round_pos pos_imp_zdiv_nonneg_iff)

lemma index_to_rate_at_pos: "index_to_rate_at r = Some rate \<Longrightarrow> 0 < rate"
proof -
  assume a: "index_to_rate_at r = Some rate"
  then have "rate \<in> set index_to_rate"
    by (auto simp: index_to_rate_at_def split: if_splits)
  then show ?thesis by (auto simp: index_to_rate_def)
qed



lemma ack_time_usec_eq: "ack_time_usec = 60"
  by (simp add: ack_time_usec_def pkt_duration_def div_round_def index_to_rate_def sifs_def
      signed_divide_int_def)

lemma difs_eq: "difs = 34"
  by (simp add: difs_def slot_time_def sifs_def)

lemma sdiv_nonneg: "0 \<le> (a::int) \<Longrightarrow> 0 \<le> b \<Longrightarrow> 0 \<le> a sdiv b"
  by (simp add: signed_divide_int_def sgn_if pos_imp_zdiv_nonneg_iff)

lemma attempt_noack:
  "index_to_rate_at r = Some rate \<Longrightarrow> pkt_duration_fits (int (data_len f)) rate \<Longrightarrow>
   send_fits s (pkt_duration (int (data_len f)) rate) \<Longrightarrow>
   attempt e q f True r j s =
     Inr (s\<lparr>send_time := send_time s + (difs + pkt_duration (int (data_len f)) rate),
            retries := retries s + 1, is_acked := True\<rparr>)"
  by (simp add: attempt_def)

lemma attempt_Inr:
  assumes "attempt e q f noack r j s = Inr s'"
  shows "\<exists>rate. index_to_rate_at r = Some rate"
  using assms by (auto simp: attempt_def split: option.splits)

lemma attempt_send_time:
  assumes "attempt e q f noack r j s = Inr s'" "index_to_rate_at r = Some rate"
  shows "send_time s + (difs + pkt_duration (int (data_len f)) rate) \<le> send_time s'"
proof -
  have nn: "\<And>c. (0::int) \<le> c \<Longrightarrow> 0 \<le> (c * slot_time) sdiv 2"
    by (simp add: slot_time_def sdiv_nonneg)
  show ?thesis
    using assms nn [of "cw s"]
    by (auto simp: attempt_def Let_def ack_time_usec_eq backoff_fits_def split: if_splits)
qed

lemma rung_loop_send_time:
  assumes "rung_loop e q f noack r n j s = Inr (j', s')"
  shows "send_time s \<le> send_time s'"
  using assms
proof (induction e q f noack r n j s rule: rung_loop.induct)
  case (1 e q f noack r n j s)
  show ?case
  proof (cases "j < n")
    case False
    with "1.prems" show ?thesis by (simp add: rung_loop.simps)
  next
    case True
    with "1.prems" obtain s1 where s1: "attempt e q f noack r j s = Inr s1"
      by (auto simp: rung_loop.simps [of e q f noack r n j s] split: sum.splits)
    then obtain rate where rate: "index_to_rate_at r = Some rate"
      using attempt_Inr by blast
    have pos: "0 \<le> difs + pkt_duration (int (data_len f)) rate"
      using pkt_duration_ge [OF index_to_rate_at_pos [OF rate], of "int (data_len f)"]
      by (simp add: difs_eq)
    from attempt_send_time [OF s1 rate] pos
    have step: "send_time s \<le> send_time s1" by auto
    show ?thesis
    proof (cases "is_acked s1")
      case True
      with \<open>j < n\<close> s1 "1.prems" step show ?thesis
        by (simp add: rung_loop.simps [of e q f noack r n j s])
    next
      case False
      with \<open>j < n\<close> s1 "1.prems"
      have rec: "rung_loop e q f noack r n (j + 1) s1 = Inr (j', s')"
        by (simp add: rung_loop.simps [of e q f noack r n j s])
      from "1.IH" [OF \<open>j < n\<close> s1 False rec] step
      show ?thesis by simp
    qed
  qed
qed

lemma rung_loop_first:
  assumes "rung_loop e q f noack r n j s = Inr (j', s')"
    "j < n" "index_to_rate_at r = Some rate"
  shows "send_time s + (difs + pkt_duration (int (data_len f)) rate) \<le> send_time s'"
proof -
  from assms obtain s1 where s1: "attempt e q f noack r j s = Inr s1"
    by (auto simp: rung_loop.simps [of e q f noack r n j s] split: sum.splits)
  from attempt_send_time [OF s1 assms(3)]
  have step: "send_time s + (difs + pkt_duration (int (data_len f)) rate) \<le> send_time s1"
    by auto
  show ?thesis
  proof (cases "is_acked s1")
    case True
    with assms s1 step show ?thesis
      by (simp add: rung_loop.simps [of e q f noack r n j s])
  next
    case False
    with assms s1
    have rec: "rung_loop e q f noack r n (j + 1) s1 = Inr (j', s')"
      by (simp add: rung_loop.simps [of e q f noack r n j s])
    from rung_loop_send_time [OF rec] step show ?thesis by simp
  qed
qed


lemma rung_loop_noack:
  assumes "index_to_rate_at r = Some rate" "0 < n"
    "pkt_duration_fits (int (data_len f)) rate"
    "send_fits s (pkt_duration (int (data_len f)) rate)"
  shows "rung_loop e q f True r n 0 s =
     Inr (0, s\<lparr>send_time := send_time s + (difs + pkt_duration (int (data_len f)) rate),
                retries := retries s + 1, is_acked := True\<rparr>)"
  using assms by (simp add: rung_loop.simps [of e q f True r n 0 s] attempt_noack)

lemma ladder_loop_send_time:
  assumes "ladder_loop e q f noack i j s = Inr (i', j', s')"
  shows "send_time s \<le> send_time s'"
  using assms
proof (induction e q f noack i j s rule: ladder_loop.induct)
  case (1 e q f noack i j s)
  let ?r = "sint (idx (tx_rates f i))"
  show ?case
  proof (cases "i < IEEE80211_TX_MAX_RATES \<and> \<not> is_acked s \<and> \<not> ?r < 0")
    case False
    with "1.prems" show ?thesis
      by (auto simp: ladder_loop.simps [of e q f noack i j s] Let_def split: if_splits)
  next
    case True
    with "1.prems" obtain j1 s1 where
      r1: "rung_loop e q f noack ?r (unat (count (tx_rates f i))) 0 s = Inr (j1, s1)"
      and rec: "ladder_loop e q f noack (i + 1) j1 s1 = Inr (i', j', s')"
      by (auto simp: ladder_loop.simps [of e q f noack i j s] Let_def split: sum.splits)
    from rung_loop_send_time [OF r1]
    have step: "send_time s \<le> send_time s1" by auto
    from True have c: "i < IEEE80211_TX_MAX_RATES \<and> \<not> is_acked s" and nn: "\<not> ?r < 0" by auto
    from "1.IH" [OF c refl nn r1 refl rec] step
    show ?thesis by simp
  qed
qed

lemma ladder_loop_stop:
  "is_acked s \<Longrightarrow> ladder_loop e q f noack i j s = Inr (i, j, s)"
  by (simp add: ladder_loop.simps [of e q f noack i j s])


lemma ladder_loop_first:
  assumes "ladder_loop e q f noack i j s = Inr (i', j', s')"
    "i < IEEE80211_TX_MAX_RATES" "\<not> is_acked s"
    "index_to_rate_at (sint (idx (tx_rates f i))) = Some rate"
    "0 < unat (count (tx_rates f i))"
  shows "send_time s + (difs + pkt_duration (int (data_len f)) rate) \<le> send_time s'"
proof -
  let ?r = "sint (idx (tx_rates f i))"
  from assms(4) have nn: "\<not> ?r < 0"
    by (auto simp: index_to_rate_at_def split: if_splits)
  with assms obtain j1 s1 where
    r1: "rung_loop e q f noack ?r (unat (count (tx_rates f i))) 0 s = Inr (j1, s1)"
    and rec: "ladder_loop e q f noack (i + 1) j1 s1 = Inr (i', j', s')"
    by (auto simp: ladder_loop.simps [of e q f noack i j s] Let_def split: sum.splits)
  from rung_loop_first [OF r1 assms(5,4)]
  have step: "send_time s + (difs + pkt_duration (int (data_len f)) rate) \<le> send_time s1"
    by auto
  from ladder_loop_send_time [OF rec] step show ?thesis by simp
qed

lemma ladder_loop_noack:
  assumes "i < IEEE80211_TX_MAX_RATES" "\<not> is_acked s"
    "index_to_rate_at (sint (idx (tx_rates f i))) = Some rate"
    "0 < unat (count (tx_rates f i))"
    "pkt_duration_fits (int (data_len f)) rate"
    "send_fits s (pkt_duration (int (data_len f)) rate)"
  shows "ladder_loop e q f True i j s =
     Inr (i + 1, 0, s\<lparr>send_time := send_time s + (difs + pkt_duration (int (data_len f)) rate),
                retries := retries s + 1, is_acked := True\<rparr>)"
proof -
  from assms(3) have nn: "\<not> sint (idx (tx_rates f i)) < 0"
    by (auto simp: index_to_rate_at_def split: if_splits)
  show ?thesis
    using assms(1,2) nn
    by (simp add: ladder_loop.simps [of e q f True i j s] rung_loop_noack [OF assms(3,4,5,6)]
        ladder_loop_stop)
qed

lemma clear_rates_at:
  "clear_rates i rates k =
     (if i \<le> k \<and> k < IEEE80211_TX_MAX_RATES then (rates k)\<lparr>idx := - 1, count := - 1\<rparr> else rates k)"
proof (induction i rates rule: clear_rates.induct)
  case (1 i rates)
  show ?case
  proof (cases "i < IEEE80211_TX_MAX_RATES")
    case True
    let ?rates = "rates(i := (rates i)\<lparr>idx := - 1, count := - 1\<rparr>)"
    from True have "clear_rates i rates k = clear_rates (i + 1) ?rates k"
      by (simp add: clear_rates.simps [of i rates])
    also have "\<dots> = (if i + 1 \<le> k \<and> k < IEEE80211_TX_MAX_RATES
        then (?rates k)\<lparr>idx := - 1, count := - 1\<rparr> else ?rates k)"
      by (rule "1.IH" [OF True])
    also have "\<dots> = (if i \<le> k \<and> k < IEEE80211_TX_MAX_RATES
        then (rates k)\<lparr>idx := - 1, count := - 1\<rparr> else rates k)"
      using True by (cases "k = i") auto
    finally show ?thesis .
  next
    case False
    then show ?thesis by (auto simp: clear_rates.simps [of i rates])
  qed
qed

lemma ack_ladder_Inr:
  assumes "ack_ladder i j f = Inr f'"
  shows "i < IEEE80211_TX_MAX_RATES" "flags f' = flags f OR HWSIM_TX_STAT_ACK"
    "data f' = data f" "data_len f' = data_len f" "cookie f' = cookie f" "sender f' = sender f"
    "\<And>k. k < i \<Longrightarrow> tx_rates f' k = tx_rates f k"
    "\<And>k. i < k \<Longrightarrow> k < IEEE80211_TX_MAX_RATES \<Longrightarrow>
        idx (tx_rates f' k) = - 1 \<and> count (tx_rates f' k) = - 1"
    "tx_rates f' i = (tx_rates f i)\<lparr>count := of_nat (j + 1)\<rparr>"
  using assms by (auto simp: ack_ladder_def Let_def clear_rates_at split: if_splits)

lemma timespec_add_usec_mono:
  assumes "timespec_add_usec t a = Inr ta" "timespec_add_usec t b = Inr tb" "a \<le> b"
  shows "\<not> timespec_before tb ta"
  using assms
  by (auto simp: timespec_add_usec_def timespec_before_def Let_def split: if_splits)

lemma timespec_add_usec_Inr:
  assumes "0 \<le> a" "a * 1000 \<le> INT_MAX"
  shows "\<exists>ta. timespec_add_usec t a = Inr ta"
  using assms by (auto simp: timespec_add_usec_def INT_MAX_def Let_def)

lemma timespec_add_usec_le:
  assumes "timespec_add_usec t b = Inr tb" "0 \<le> a" "a \<le> b"
  shows "\<exists>ta. timespec_add_usec t a = Inr ta"
  using assms by (auto simp: timespec_add_usec_def INT_MAX_def Let_def split: if_splits)

lemma queue_frame_fill_Inr:
  assumes "queue_frame_fill e q f = Inr f'"
  shows "\<exists>i j s target.
      ladder_loop e q f (frame_is_mgmt f \<or> is_multicast_ether_addr (hdr_addr1 f)) 0 0 (xmit_init q)
        = Inr (i, j, s)
    \<and> timespec_add_usec (clock_gettime e) (send_time s) = Inr target
    \<and> (if is_acked s then \<exists>f1. ack_ladder i j f = Inr f1 \<and> f' = f1\<lparr>expires := target\<rparr>
        else f' = f\<lparr>expires := target\<rparr>)"
  using assms
  by (auto simp: queue_frame_fill_def Let_def split: sum.splits if_splits)

lemma queue_frame_fill_keeps:
  assumes "queue_frame_fill e q f = Inr f'"
  shows "data f' = data f" "data_len f' = data_len f" "cookie f' = cookie f" "sender f' = sender f"
proof -
  from queue_frame_fill_Inr [OF assms] obtain i j and s :: xmit and target where
    c: "if is_acked s then \<exists>f1. ack_ladder i j f = Inr f1 \<and> f' = f1\<lparr>expires := target\<rparr>
        else f' = f\<lparr>expires := target\<rparr>"
    by blast
  show "data f' = data f" "data_len f' = data_len f" "cookie f' = cookie f" "sender f' = sender f"
    using c by (auto split: if_splits dest: ack_ladder_Inr(3,4,5,6))
qed

lemma queue_frame_fill_flags:
  assumes "queue_frame_fill e q f = Inr f'"
  shows "flags f' = flags f \<or> flags f' = flags f OR HWSIM_TX_STAT_ACK"
proof -
  from queue_frame_fill_Inr [OF assms] obtain i j and s :: xmit and target where
    c: "if is_acked s then \<exists>f1. ack_ladder i j f = Inr f1 \<and> f' = f1\<lparr>expires := target\<rparr>
        else f' = f\<lparr>expires := target\<rparr>"
    by blast
  show ?thesis
    using c by (auto split: if_splits dest: ack_ladder_Inr(2))
qed

lemma rearm_timer_fields:
  "stations (rearm_timer e ctx) = stations ctx" "sock (rearm_timer e ctx) = sock ctx"
  by (simp_all add: rearm_timer_def Let_def)

lemma queue_frame_Inr:
  assumes "queue_frame e ctx st f = Inr ctx'" "st < length (stations ctx)"
  shows "\<exists>f'. queue_frame_fill e (frame_queue (stations ctx ! st) f) f = Inr f'
    \<and> frames (frame_queue (stations ctx' ! st) f) = frames (frame_queue (stations ctx ! st) f) @ [f']
    \<and> map addr (stations ctx') = map addr (stations ctx)
    \<and> sock ctx' = sock ctx"
proof -
  let ?q = "frame_queue (stations ctx ! st) f"
  from assms(1) obtain f' where fill: "queue_frame_fill e ?q f = Inr f'"
    by (auto simp: queue_frame_def Let_def split: sum.splits)
  let ?st' = "if frame_is_mgmt f
              then (stations ctx ! st)\<lparr>mgmt_queue := list_add_tail f' ?q\<rparr>
              else (stations ctx ! st)\<lparr>data_queue := list_add_tail f' ?q\<rparr>"
  from assms(1) fill
  have ctx': "ctx' = rearm_timer e (ctx\<lparr>stations := (stations ctx)[st := ?st']\<rparr>)"
    by (simp add: queue_frame_def Let_def)
  have "frames (frame_queue (stations ctx' ! st) f) = frames ?q @ [f']"
    using assms(2) by (simp add: ctx' rearm_timer_fields frame_queue_def list_add_tail_def)
  moreover have "map addr (stations ctx') = map addr (stations ctx)"
    using assms(2)
    by (simp add: ctx' rearm_timer_fields map_update) (simp add: list_update_same_conv)
  moreover have "sock ctx' = sock ctx"
    by (simp add: ctx' rearm_timer_fields)
  ultimately show ?thesis using fill by blast
qed

lemma get_station_by_addr_from_Some:
  "get_station_by_addr_from k0 sts a = Some k \<Longrightarrow>
     k0 \<le> k \<and> k - k0 < length sts \<and> memcmp_eq (addr (sts ! (k - k0))) a ETH_ALEN"
proof (induction sts arbitrary: k0)
  case Nil
  then show ?case by simp
next
  case (Cons st sts)
  show ?case
  proof (cases "memcmp_eq (addr st) a ETH_ALEN")
    case True
    with Cons.prems show ?thesis by simp
  next
    case False
    with Cons.prems have "get_station_by_addr_from (k0 + 1) sts a = Some k" by simp
    from Cons.IH [OF this]
    have ih: "k0 + 1 \<le> k" "k - (k0 + 1) < length sts"
      "memcmp_eq (addr (sts ! (k - (k0 + 1)))) a ETH_ALEN" by auto
    from ih(1) have "k - k0 = Suc (k - (k0 + 1))" by arith
    with ih show ?thesis by simp
  qed
qed

lemma get_station_by_addr_Some:
  "get_station_by_addr ctx a = Some k \<Longrightarrow>
     k < length (stations ctx) \<and> memcmp_eq (addr (stations ctx ! k)) a ETH_ALEN"
  using get_station_by_addr_from_Some [of 0 "stations ctx" a k]
  by (simp add: get_station_by_addr_def)

lemma process_messages_cb_queue:
  assumes "cmd m = HWSIM_CMD_FRAME" "in_addr_transmitter m = Some src"
    "get_station_by_addr ctx src = Some sndr" "malloc_ok e"
  shows "process_messages_cb e ctx m = queue_frame e ctx sndr (new_frame e m sndr)"
  using assms by (simp add: process_messages_cb_def)

lemma deliver_frame_rx_eq:
  "deliver_frame_rx src dest f sts =
     map (\<lambda>st. HWSIM_CMD_FRAME_msg (addr st) (map (data f) [0 ..< data_len f]) 1 (- 50))
       (filter (\<lambda>st. \<not> memcmp_eq src (addr st) ETH_ALEN \<and>
          (is_multicast_ether_addr dest \<or> memcmp_eq dest (addr st) ETH_ALEN)) sts)"
  by (induction sts) (simp_all add: send_cloned_frame_msg_def)

lemma map_nth_padded:
  "map (\<lambda>k. if k < length xs then xs ! k else g k) [0 ..< length xs] = xs"
proof -
  have "map (\<lambda>k. if k < length xs then xs ! k else g k) [0 ..< length xs]
      = map (\<lambda>k. xs ! k) [0 ..< length xs]"
    by (rule map_cong) simp_all
  then show ?thesis by (simp add: map_nth)
qed

lemma new_frame_payload:
  "map (data (new_frame e m sndr)) [0 ..< data_len (new_frame e m sndr)] = in_frame m"
  by (simp add: new_frame_def map_nth_padded)

lemma pkt_duration_len_mono:
  "0 < rate \<Longrightarrow> 0 \<le> len1 \<Longrightarrow> len1 \<le> len2 \<Longrightarrow> pkt_duration len1 rate \<le> pkt_duration len2 rate"
  by (simp add: pkt_duration_def div_round_pos zdiv_mono1)

lemma pkt_duration_rate_mono:
  "0 < r1 \<Longrightarrow> r1 \<le> r2 \<Longrightarrow> 0 \<le> len \<Longrightarrow> pkt_duration len r2 \<le> pkt_duration len r1"
proof -
  assume a: "0 < r1" "r1 \<le> r2" "0 \<le> len"
  let ?a = "(16 + 8 * len + 6) * 10"
  have "(?a - 1) div (4 * r2) \<le> (?a - 1) div (4 * r1)"
    using a by (intro zdiv_mono2) auto
  then show ?thesis using a by (simp add: pkt_duration_def div_round_pos)
qed

lemma index_to_rate_at_ge: "index_to_rate_at r = Some rate \<Longrightarrow> 60 \<le> rate"
proof -
  assume a: "index_to_rate_at r = Some rate"
  then have "rate \<in> set index_to_rate"
    by (auto simp: index_to_rate_at_def split: if_splits)
  then show ?thesis by (auto simp: index_to_rate_def)
qed

lemma pkt_duration_upper:
  assumes "index_to_rate_at r = Some rate" "0 \<le> len" "len < 65536"
  shows "pkt_duration len rate \<le> 87404"
proof -
  have "pkt_duration len rate \<le> pkt_duration len 60"
    using pkt_duration_rate_mono [of 60 rate len] index_to_rate_at_ge [OF assms(1)] assms(2)
    by simp
  also have "\<dots> \<le> pkt_duration 65535 60"
    using pkt_duration_len_mono [of 60 len 65535] assms by simp
  also have "\<dots> = 87404"
    by (simp add: pkt_duration_def div_round_def signed_divide_int_def)
  finally show ?thesis .
qed

lemma deliver_frame_msgs_no_echo:
  assumes "m \<in> set (deliver_frame_msgs c f)" "m = HWSIM_CMD_FRAME_msg dst p r sg"
  shows "\<not> memcmp_eq (addr (stations c ! sender f)) dst ETH_ALEN"
  using assms
  by (auto simp: deliver_frame_msgs_def Let_def deliver_frame_rx_eq send_tx_info_frame_nl_def
      split: if_splits)

lemma broadcast_fill_fields:
  "\<not> isl broadcast_fill"
  "flags (projr broadcast_fill) = 4"
  "cookie (projr broadcast_fill) = 0x1234"
  "sender (projr broadcast_fill) = 0"
  "hdr_addr1 (projr broadcast_fill) = [255, 255, 255, 255, 255, 255]"
  "map (data (projr broadcast_fill)) [0 ..< data_len (projr broadcast_fill)]
     = [8, 0, 0, 0, 255, 255, 255, 255, 255, 255] @ replicate 14 0"
  "map (tx_rates (projr broadcast_fill)) [0 ..< IEEE80211_TX_MAX_RATES]
     = [\<lparr>idx = 0, count = 1\<rparr>, \<lparr>idx = - 1, count = 1\<rparr>,
        \<lparr>idx = - 1, count = - 1\<rparr>, \<lparr>idx = - 1, count = - 1\<rparr>]"
  by code_simp+

lemma deliver_frame_msgs_last:
  "last (deliver_frame_msgs c f) =
     HWSIM_CMD_TX_INFO_FRAME_msg (addr (stations c ! sender f)) (flags f) 35
       (map (tx_rates f) [0 ..< IEEE80211_TX_MAX_RATES]) (cookie f)"
  by (simp add: deliver_frame_msgs_def Let_def send_tx_info_frame_nl_def)

lemma deliver_frame_msgs_cloned:
  assumes "flags f AND HWSIM_TX_STAT_ACK \<noteq> 0" "station \<in> set (stations c)"
    "\<not> memcmp_eq (addr (stations c ! sender f)) (addr station) ETH_ALEN"
    "is_multicast_ether_addr (hdr_addr1 f) \<or> memcmp_eq (hdr_addr1 f) (addr station) ETH_ALEN"
  shows "HWSIM_CMD_FRAME_msg (addr station) (map (data f) [0 ..< data_len f]) 1 (- 50)
           \<in> set (deliver_frame_msgs c f)"
  using assms by (auto simp: deliver_frame_msgs_def Let_def deliver_frame_rx_eq)

lemma ack_flag_kept:
  assumes "(x::u32) AND HWSIM_TX_STAT_ACK \<noteq> 0" "y = x \<or> y = x OR HWSIM_TX_STAT_ACK"
  shows "y AND HWSIM_TX_STAT_ACK \<noteq> 0"
proof (cases "y = x")
  case True
  with assms(1) show ?thesis by simp
next
  case False
  with assms(2) have "y AND HWSIM_TX_STAT_ACK = HWSIM_TX_STAT_ACK"
    by (simp add: word_bw_assocs word_ao_absorbs)
  moreover from assms(1) have "HWSIM_TX_STAT_ACK \<noteq> 0" by auto
  ultimately show ?thesis by simp
qed

lemma get_station_by_addr_A:
  "get_station_by_addr (wmediumd_init [sta_A, sta_B]) sta_A = Some 0"
  by (simp add: get_station_by_addr_def wmediumd_init_def station_init_def memcmp_eq_def)

lemma pkt_duration_fits_attr:
  assumes "index_to_rate_at r = Some rate" "0 \<le> len" "len < 65536"
  shows "pkt_duration_fits len rate"
proof -
  from assms(1) have "rate \<in> set index_to_rate"
    by (auto simp: index_to_rate_at_def split: if_splits)
  then have rate: "60 \<le> rate" "rate \<le> 540" by (auto simp: index_to_rate_def)
  have up: "pkt_duration len rate \<le> 87404" using assms by (rule pkt_duration_upper)
  have lo: "20 \<le> pkt_duration len rate"
    using pkt_duration_ge [of rate len] rate assms(2) by simp
  have d: "4 * div_round ((16 + 8 * len + 6) * 10) (4 * rate) = pkt_duration len rate - 20"
    by (simp add: pkt_duration_def)
  show ?thesis
    unfolding pkt_duration_fits_def d
    using assms(2,3) rate up lo by (simp add: int_fits_def INT_MAX_def)
qed

lemma index_to_rate_at_table:
  assumes "rate \<in> set index_to_rate"
  shows "\<exists>r. index_to_rate_at r = Some rate"
proof -
  from assms obtain i where i: "i < length index_to_rate" "index_to_rate ! i = rate"
    by (auto simp: in_set_conv_nth)
  then have "index_to_rate_at (int i) = Some rate"
    by (simp add: index_to_rate_at_def)
  then show ?thesis by blast
qed



lemma timespec_add_usec_ns:
  assumes "timespec_add_usec t a = Inr ta"
  shows "timespec_ns ta = timespec_ns t + a * 1000"
  using assms
  by (auto simp: timespec_add_usec_def timespec_ns_def Let_def split: if_splits)












section \<open>The claims\<close>

text \<open>
  C1, the code at a failing input. Station A sends a data frame of 200 bytes and, one
  microsecond later, one of 24 bytes; both go to A's data queue in this order. The
  second expires at 100 s + 91 us, before the first at 100 s + 326 us: the expiry of a
  frame is the clock reading plus its own send time, the expiry of the frame before
  it in the queue is not added.
\<close>
theorem queue_frame_breaks_expiry_order:
  "\<not> isl after_long \<and> \<not> isl after_short
    \<and> map expires (frames (data_queue (stations (projr after_short) ! 0)))
        = [\<lparr>tv_sec = 100, tv_nsec = 326000\<rparr>, \<lparr>tv_sec = 100, tv_nsec = 91000\<rparr>]
    \<and> timespec_before \<lparr>tv_sec = 100, tv_nsec = 91000\<rparr> \<lparr>tv_sec = 100, tv_nsec = 326000\<rparr>"
  by code_simp






text \<open>
  C4, as amended. For every rate of the table and lengths \<open>0 \<le> len1 < len2 < 2^16\<close>
  the duration does not decrease with the length, and for every length
  \<open>1 \<le> len < 2^16\<close> and rates \<open>r1 < r2\<close> of the table it does not increase with the
  rate; for these arguments no intermediate value of the C functions leaves the range
  of \<^verbatim>\<open>int\<close>. Strictness fails because the duration is rounded up to whole symbols of
  4 microseconds.
\<close>
theorem pkt_duration_monotone:
  "(rate \<in> set index_to_rate \<and> 0 \<le> len1 \<and> len1 < len2 \<and> len2 < 2 ^ 16 \<longrightarrow>
      pkt_duration len1 rate \<le> pkt_duration len2 rate \<and>
      pkt_duration_fits len1 rate \<and> pkt_duration_fits len2 rate) \<and>
   (r1 \<in> set index_to_rate \<and> r2 \<in> set index_to_rate \<and> r1 < r2 \<and> 1 \<le> len \<and> len < 2 ^ 16 \<longrightarrow>
      pkt_duration len r2 \<le> pkt_duration len r1 \<and>
      pkt_duration_fits len r1 \<and> pkt_duration_fits len r2)"
proof (intro conjI impI)
  have pos: "\<And>r. r \<in> set index_to_rate \<Longrightarrow> 0 < r"
    by (auto simp: index_to_rate_def)
  {
    assume a: "rate \<in> set index_to_rate \<and> 0 \<le> len1 \<and> len1 < len2 \<and> len2 < 2 ^ 16"
    then show "pkt_duration len1 rate \<le> pkt_duration len2 rate"
      using pkt_duration_len_mono [of rate len1 len2] pos by simp
    from a index_to_rate_at_table obtain r where r: "index_to_rate_at r = Some rate" by blast
    from a show "pkt_duration_fits len1 rate"
      by (intro pkt_duration_fits_attr [OF r]) simp_all
    from a show "pkt_duration_fits len2 rate"
      by (intro pkt_duration_fits_attr [OF r]) simp_all
  }
  {
    assume a: "r1 \<in> set index_to_rate \<and> r2 \<in> set index_to_rate \<and> r1 < r2 \<and> 1 \<le> len \<and> len < 2 ^ 16"
    then show "pkt_duration len r2 \<le> pkt_duration len r1"
      using pkt_duration_rate_mono [of r1 r2 len] pos by simp
    from a index_to_rate_at_table obtain i1 i2 where
      r: "index_to_rate_at i1 = Some r1" "index_to_rate_at i2 = Some r2" by blast
    from a show "pkt_duration_fits len r1"
      by (intro pkt_duration_fits_attr [OF r(1)]) simp_all
    from a show "pkt_duration_fits len r2"
      by (intro pkt_duration_fits_attr [OF r(2)]) simp_all
  }
qed

text \<open>C4, witness: lengths 1 and 4 at rate 60 (28 and 32 microseconds), and rates 60 and
  90 at length 1 (28 and 24 microseconds).\<close>
theorem pkt_duration_monotone_witness:
  "60 \<in> set index_to_rate \<and> (0::int) \<le> 1 \<and> (1::int) < 4 \<and> (4::int) < 2 ^ 16
   \<and> pkt_duration 1 60 \<le> pkt_duration 4 60
   \<and> pkt_duration 1 60 = 28 \<and> pkt_duration 4 60 = 32
   \<and> 90 \<in> set index_to_rate \<and> (60::int) < 90 \<and> (1::int) \<le> 1 \<and> (1::int) < 2 ^ 16
   \<and> pkt_duration 1 90 \<le> pkt_duration 1 60
   \<and> pkt_duration 1 90 = 24"
proof -
  have v: "pkt_duration 1 60 = 28" "pkt_duration 4 60 = 32" "pkt_duration 1 90 = 24"
    by (simp_all add: pkt_duration_def div_round_def signed_divide_int_def)
  have m: "60 \<in> set index_to_rate" "90 \<in> set index_to_rate"
    by (simp_all add: index_to_rate_def)
  from pkt_duration_monotone [of 60 1 4 60 90 1] m
  have "pkt_duration 1 60 \<le> pkt_duration 4 60" "pkt_duration 1 90 \<le> pkt_duration 1 60"
    by simp_all
  with v m show ?thesis by simp
qed

text \<open>
  C4, counterexample to the claim as stated: at rate 60 the lengths 1 and 2 take the
  same time, and at length 1 the rates 90 and 120 take the same time.
\<close>
theorem pkt_duration_strict_counterexample:
  "60 \<in> set index_to_rate \<and> (1::int) < 2 \<and> (2::int) < 2 ^ 16
   \<and> \<not> pkt_duration 1 60 < pkt_duration 2 60 \<and>
   90 \<in> set index_to_rate \<and> 120 \<in> set index_to_rate \<and> (90::int) < 120 \<and>
   \<not> pkt_duration 1 120 < pkt_duration 1 90"
  by (simp add: index_to_rate_def pkt_duration_def div_round_def signed_divide_int_def)




text \<open>
  C6. Let the first rung of a frame be present (its rate index lies in the rate table)
  with a count of at least 1, let the frame be a management frame or have a multicast
  \<open>addr1\<close>, and let its length fit a netlink attribute (below \<open>2^16\<close>). Then the
  send-time loops of \<^verbatim>\<open>queue_frame\<close> end after the first attempt of the first rung:
  \<open>i = 1\<close> and \<open>j = 0\<close> after the loops, one retry counted, acknowledged, send time
  \<open>difs\<close> plus one packet duration. \<^verbatim>\<open>queue_frame\<close> completes, sends nothing, and
  appends to the sender's queue the frame it was given with three changes: its expiry is
  the clock reading plus that send time, its flags have the ACK bit set in addition, and
  its ladder is what the acknowledged branch makes of it with \<open>i = 1\<close> and \<open>j = 0\<close>
  (rung 0 as it was, the count of rung 1 set to 1, every later rung absent with count
  -1). Delivering that frame in any context sends no cloned frame to an address equal
  to the sender's.
\<close>
theorem noack_short_circuit:
  assumes "st < length (stations ctx)"
    and "index_to_rate_at (sint (idx (tx_rates frame 0))) = Some rate"
    and "1 \<le> unat (count (tx_rates frame 0))"
    and "frame_is_mgmt frame \<or> is_multicast_ether_addr (hdr_addr1 frame)"
    and "data_len frame < 2 ^ 16"
  shows "\<exists>s frame' ctx'.
      ladder_loop e (frame_queue (stations ctx ! st) frame) frame True 0 0
          (xmit_init (frame_queue (stations ctx ! st) frame)) = Inr (1, 0, s)
      \<and> retries s = 1 \<and> is_acked s
      \<and> send_time s = difs + pkt_duration (int (data_len frame)) rate
      \<and> queue_frame e ctx st frame = Inr ctx'
      \<and> frames (frame_queue (stations ctx' ! st) frame)
          = frames (frame_queue (stations ctx ! st) frame) @ [frame']
      \<and> sock ctx' = sock ctx
      \<and> timespec_add_usec (clock_gettime e) (send_time s) = Inr (expires frame')
      \<and> tx_rates frame' 0 = tx_rates frame 0
      \<and> tx_rates frame' 1 = (tx_rates frame 1)\<lparr>count := 1\<rparr>
      \<and> (\<forall>k. 1 < k \<and> k < IEEE80211_TX_MAX_RATES \<longrightarrow>
            idx (tx_rates frame' k) = - 1 \<and> count (tx_rates frame' k) = - 1)
      \<and> flags frame' = flags frame OR HWSIM_TX_STAT_ACK
      \<and> cookie frame' = cookie frame \<and> sender frame' = sender frame
      \<and> data_len frame' = data_len frame \<and> data frame' = data frame
      \<and> flags frame' AND HWSIM_TX_STAT_ACK = HWSIM_TX_STAT_ACK
      \<and> (\<forall>c. \<forall>m \<in> set (deliver_frame_msgs c frame'). \<forall>dst p r sg.
            m = HWSIM_CMD_FRAME_msg dst p r sg \<longrightarrow>
            \<not> memcmp_eq (addr (stations c ! sender frame')) dst ETH_ALEN)"
proof -
  let ?q = "frame_queue (stations ctx ! st) frame"
  let ?s = "(xmit_init ?q)\<lparr>send_time := send_time (xmit_init ?q)
                 + (difs + pkt_duration (int (data_len frame)) rate),
               retries := retries (xmit_init ?q) + 1, is_acked := True\<rparr>"
  have up: "pkt_duration (int (data_len frame)) rate \<le> 87404"
    using pkt_duration_upper [OF assms(2), of "int (data_len frame)"] assms(5) by simp
  have lo: "20 \<le> pkt_duration (int (data_len frame)) rate"
    using pkt_duration_ge [OF index_to_rate_at_pos [OF assms(2)], of "int (data_len frame)"]
    by simp
  have fits: "pkt_duration_fits (int (data_len frame)) rate"
    using pkt_duration_fits_attr [OF assms(2), of "int (data_len frame)"] assms(5) by simp
  have sfits: "send_fits (xmit_init ?q) (pkt_duration (int (data_len frame)) rate)"
    using up lo by (simp add: send_fits_def xmit_init_def int_fits_def INT_MAX_def difs_eq)
  have loop: "ladder_loop e ?q frame True 0 0 (xmit_init ?q) = Inr (0 + 1, 0, ?s)"
    using assms(2,3) fits sfits
    by (intro ladder_loop_noack) (simp_all add: IEEE80211_TX_MAX_RATES_def xmit_init_def)
  have st: "send_time ?s = difs + pkt_duration (int (data_len frame)) rate"
    by (simp add: xmit_init_def)
  have "0 \<le> send_time ?s" "send_time ?s * 1000 \<le> INT_MAX"
    using up lo unfolding st by (simp_all add: difs_eq INT_MAX_def)
  from timespec_add_usec_Inr [OF this, of "clock_gettime e"] obtain target where
    target: "timespec_add_usec (clock_gettime e) (send_time ?s) = Inr target"
    by blast
  obtain f1 where f1: "ack_ladder 1 0 frame = Inr f1"
    by (simp add: ack_ladder_def IEEE80211_TX_MAX_RATES_def Let_def)
  have fill: "queue_frame_fill e ?q frame = Inr (f1\<lparr>expires := target\<rparr>)"
    using assms(4) loop target f1 by (simp add: queue_frame_fill_def xmit_init_def)
  then obtain ctx' where q: "queue_frame e ctx st frame = Inr ctx'"
    by (simp add: queue_frame_def Let_def)
  from queue_frame_Inr [OF q assms(1)] fill
  have fr: "frames (frame_queue (stations ctx' ! st) frame) = frames ?q @ [f1\<lparr>expires := target\<rparr>]"
    and so: "sock ctx' = sock ctx"
    by auto
  note a = ack_ladder_Inr [OF f1]
  have ex: "timespec_add_usec (clock_gettime e) (send_time ?s) = Inr (expires (f1\<lparr>expires := target\<rparr>))"
    using target by simp
  have l0: "tx_rates (f1\<lparr>expires := target\<rparr>) 0 = tx_rates frame 0"
    using a(7) [of 0] by simp
  have l1: "tx_rates (f1\<lparr>expires := target\<rparr>) 1 = (tx_rates frame 1)\<lparr>count := 1\<rparr>"
    using a(9) by simp
  have l2: "\<forall>k. 1 < k \<and> k < IEEE80211_TX_MAX_RATES \<longrightarrow>
            idx (tx_rates (f1\<lparr>expires := target\<rparr>) k) = - 1 \<and>
            count (tx_rates (f1\<lparr>expires := target\<rparr>) k) = - 1"
    using a(8) by simp
  have fo: "flags (f1\<lparr>expires := target\<rparr>) = flags frame OR HWSIM_TX_STAT_ACK"
    using a(2) by simp
  have keep: "cookie (f1\<lparr>expires := target\<rparr>) = cookie frame"
    "sender (f1\<lparr>expires := target\<rparr>) = sender frame"
    "data_len (f1\<lparr>expires := target\<rparr>) = data_len frame"
    "data (f1\<lparr>expires := target\<rparr>) = data frame"
    using a(3,4,5,6) by simp_all
  have fl: "flags (f1\<lparr>expires := target\<rparr>) AND HWSIM_TX_STAT_ACK = HWSIM_TX_STAT_ACK"
    using ack_ladder_Inr(2) [OF f1] by (simp add: word_bw_assocs word_ao_absorbs)
  have r: "retries ?s = 1" "is_acked ?s" by (simp_all add: xmit_init_def)
  from loop have loop1: "ladder_loop e ?q frame True 0 0 (xmit_init ?q) = Inr (1, 0, ?s)"
    by simp
  have echo: "\<forall>c. \<forall>m \<in> set (deliver_frame_msgs c (f1\<lparr>expires := target\<rparr>)). \<forall>dst p r sg.
            m = HWSIM_CMD_FRAME_msg dst p r sg \<longrightarrow>
            \<not> memcmp_eq (addr (stations c ! sender (f1\<lparr>expires := target\<rparr>))) dst ETH_ALEN"
    using deliver_frame_msgs_no_echo by blast
  show ?thesis
  proof (intro exI conjI)
    show "ladder_loop e ?q frame True 0 0 (xmit_init ?q) = Inr (1, 0, ?s)" by (fact loop1)
    show "retries ?s = 1" by (fact r(1))
    show "is_acked ?s" by (fact r(2))
    show "send_time ?s = difs + pkt_duration (int (data_len frame)) rate" by (fact st)
    show "queue_frame e ctx st frame = Inr ctx'" by (fact q)
    show "frames (frame_queue (stations ctx' ! st) frame) = frames ?q @ [f1\<lparr>expires := target\<rparr>]"
      by (fact fr)
    show "sock ctx' = sock ctx" by (fact so)
    show "timespec_add_usec (clock_gettime e) (send_time ?s) = Inr (expires (f1\<lparr>expires := target\<rparr>))"
      by (fact ex)
    show "tx_rates (f1\<lparr>expires := target\<rparr>) 0 = tx_rates frame 0" by (fact l0)
    show "tx_rates (f1\<lparr>expires := target\<rparr>) 1 = (tx_rates frame 1)\<lparr>count := 1\<rparr>" by (fact l1)
    show "\<forall>k. 1 < k \<and> k < IEEE80211_TX_MAX_RATES \<longrightarrow>
            idx (tx_rates (f1\<lparr>expires := target\<rparr>) k) = - 1 \<and>
            count (tx_rates (f1\<lparr>expires := target\<rparr>) k) = - 1"
      by (fact l2)
    show "flags (f1\<lparr>expires := target\<rparr>) = flags frame OR HWSIM_TX_STAT_ACK" by (fact fo)
    show "cookie (f1\<lparr>expires := target\<rparr>) = cookie frame" by (fact keep(1))
    show "sender (f1\<lparr>expires := target\<rparr>) = sender frame" by (fact keep(2))
    show "data_len (f1\<lparr>expires := target\<rparr>) = data_len frame" by (fact keep(3))
    show "data (f1\<lparr>expires := target\<rparr>) = data frame" by (fact keep(4))
    show "flags (f1\<lparr>expires := target\<rparr>) AND HWSIM_TX_STAT_ACK = HWSIM_TX_STAT_ACK"
      by (fact fl)
    show "\<forall>c. \<forall>m \<in> set (deliver_frame_msgs c (f1\<lparr>expires := target\<rparr>)). \<forall>dst p r sg.
            m = HWSIM_CMD_FRAME_msg dst p r sg \<longrightarrow>
            \<not> memcmp_eq (addr (stations c ! sender (f1\<lparr>expires := target\<rparr>))) dst ETH_ALEN"
      by (fact echo)
  qed
qed

text \<open>C6, witness: the management frame \<open>mgmt_frame\<close> sent by station A, with an error
  probability of 1 for every attempt that would wait for an acknowledgement; it is
  queued for 100 s + 90 us, the time of one attempt of 24 bytes at rate index 0.\<close>
theorem noack_short_circuit_witness:
  "0 < length (stations (wmediumd_init [sta_A, sta_B]))
   \<and> index_to_rate_at (sint (idx (tx_rates mgmt_frame 0))) = Some 60
   \<and> 1 \<le> unat (count (tx_rates mgmt_frame 0))
   \<and> frame_is_mgmt mgmt_frame
   \<and> data_len mgmt_frame < 2 ^ 16
   \<and> (\<exists>s frame' ctx'.
      ladder_loop (example_env 100 0 1)
          (frame_queue (stations (wmediumd_init [sta_A, sta_B]) ! 0) mgmt_frame) mgmt_frame True 0 0
          (xmit_init (frame_queue (stations (wmediumd_init [sta_A, sta_B]) ! 0) mgmt_frame))
        = Inr (1, 0, s)
      \<and> retries s = 1 \<and> is_acked s
      \<and> send_time s = difs + pkt_duration (int (data_len mgmt_frame)) 60
      \<and> queue_frame (example_env 100 0 1) (wmediumd_init [sta_A, sta_B]) 0 mgmt_frame = Inr ctx'
      \<and> frames (frame_queue (stations ctx' ! 0) mgmt_frame)
          = frames (frame_queue (stations (wmediumd_init [sta_A, sta_B]) ! 0) mgmt_frame) @ [frame']
      \<and> sock ctx' = sock (wmediumd_init [sta_A, sta_B])
      \<and> timespec_add_usec (clock_gettime (example_env 100 0 1)) (send_time s) = Inr (expires frame')
      \<and> tx_rates frame' 0 = tx_rates mgmt_frame 0
      \<and> tx_rates frame' 1 = (tx_rates mgmt_frame 1)\<lparr>count := 1\<rparr>
      \<and> (\<forall>k. 1 < k \<and> k < IEEE80211_TX_MAX_RATES \<longrightarrow>
            idx (tx_rates frame' k) = - 1 \<and> count (tx_rates frame' k) = - 1)
      \<and> flags frame' = flags mgmt_frame OR HWSIM_TX_STAT_ACK
      \<and> cookie frame' = cookie mgmt_frame \<and> sender frame' = sender mgmt_frame
      \<and> data_len frame' = data_len mgmt_frame \<and> data frame' = data mgmt_frame
      \<and> flags frame' AND HWSIM_TX_STAT_ACK = HWSIM_TX_STAT_ACK
      \<and> (\<forall>c. \<forall>m \<in> set (deliver_frame_msgs c frame'). \<forall>dst p r sg.
            m = HWSIM_CMD_FRAME_msg dst p r sg \<longrightarrow>
            \<not> memcmp_eq (addr (stations c ! sender frame')) dst ETH_ALEN))
   \<and> map expires (frames (mgmt_queue (stations
         (projr (queue_frame (example_env 100 0 1) (wmediumd_init [sta_A, sta_B]) 0 mgmt_frame)) ! 0)))
       = [\<lparr>tv_sec = 100, tv_nsec = 90000\<rparr>]
   \<and> map flags (frames (mgmt_queue (stations
         (projr (queue_frame (example_env 100 0 1) (wmediumd_init [sta_A, sta_B]) 0 mgmt_frame)) ! 0)))
       = [4]"
proof -
  have h1: "0 < length (stations (wmediumd_init [sta_A, sta_B]))"
    by (simp add: wmediumd_init_def)
  have h2: "index_to_rate_at (sint (idx (tx_rates mgmt_frame 0))) = Some 60"
    by (simp add: mgmt_frame_def new_frame_def frame_msg_def ladder4_def
        IEEE80211_TX_MAX_RATES_def index_to_rate_at_def index_to_rate_def)
  have h3: "1 \<le> unat (count (tx_rates mgmt_frame 0))"
    by (simp add: mgmt_frame_def new_frame_def frame_msg_def ladder4_def
        IEEE80211_TX_MAX_RATES_def)
  have h4: "frame_is_mgmt mgmt_frame"
    by (simp add: frame_is_mgmt_def hdr_frame_control0_def mgmt_frame_def new_frame_def
        frame_msg_def)
  have h5: "data_len mgmt_frame < 2 ^ 16"
    by (simp add: mgmt_frame_def new_frame_def frame_msg_def sta_B_def)
  from h4 have h4': "frame_is_mgmt mgmt_frame \<or> is_multicast_ether_addr (hdr_addr1 mgmt_frame)"
    by simp
  note ex = noack_short_circuit [OF h1 h2 h3 h4' h5, of "example_env 100 0 1"]
  have v1: "map expires (frames (mgmt_queue (stations
         (projr (queue_frame (example_env 100 0 1) (wmediumd_init [sta_A, sta_B]) 0 mgmt_frame)) ! 0)))
       = [\<lparr>tv_sec = 100, tv_nsec = 90000\<rparr>]"
    by code_simp
  have v2: "map flags (frames (mgmt_queue (stations
         (projr (queue_frame (example_env 100 0 1) (wmediumd_init [sta_A, sta_B]) 0 mgmt_frame)) ! 0)))
       = [4]"
    by code_simp
  show ?thesis
    by (rule conjI [OF h1] conjI [OF h2] conjI [OF h3] conjI [OF h4] conjI [OF h5] conjI [OF ex]
          conjI [OF v1])+ (rule v2)
qed

text \<open>
  C7. \<^verbatim>\<open>deliver_frame\<close> appends to the socket: if the ACK flag of the frame is set,
  one cloned frame, with rx-rate index 1 and signal -50, for each station of the
  registry, in order, whose address differs from the sender's and equals \<open>addr1\<close> or
  whose \<open>addr1\<close> is multicast, and none otherwise; then, in both cases, exactly one
  tx-info message to the sender's address with the frame's flags, signal 35, ladder
  and cookie. The cookie, the sender and the payload of a queued frame are those of
  the incoming message it was built from.
\<close>
theorem deliver_frame_messages:
  "sock (deliver_frame ctx frame) =
     sock ctx
     @ (if flags frame AND HWSIM_TX_STAT_ACK \<noteq> 0
        then map (\<lambda>st. HWSIM_CMD_FRAME_msg (addr st) (map (data frame) [0 ..< data_len frame]) 1 (- 50))
               (filter (\<lambda>st. \<not> memcmp_eq (addr (stations ctx ! sender frame)) (addr st) ETH_ALEN \<and>
                   (is_multicast_ether_addr (hdr_addr1 frame) \<or>
                    memcmp_eq (hdr_addr1 frame) (addr st) ETH_ALEN)) (stations ctx))
        else [])
     @ [HWSIM_CMD_TX_INFO_FRAME_msg (addr (stations ctx ! sender frame)) (flags frame) 35
          (map (tx_rates frame) [0 ..< IEEE80211_TX_MAX_RATES]) (cookie frame)]
   \<and> (queue_frame_fill e queue (new_frame e m sndr) = Inr frame \<longrightarrow>
        cookie frame = in_cookie m \<and> sender frame = sndr \<and>
        map (data frame) [0 ..< data_len frame] = in_frame m)"
proof -
  have "queue_frame_fill e queue (new_frame e m sndr) = Inr frame \<Longrightarrow>
        cookie frame = in_cookie m \<and> sender frame = sndr \<and>
        map (data frame) [0 ..< data_len frame] = in_frame m"
  proof -
    assume a: "queue_frame_fill e queue (new_frame e m sndr) = Inr frame"
    from queue_frame_fill_keeps [OF a] new_frame_payload [of e m sndr]
    show ?thesis by (simp add: new_frame_def)
  qed
  then show ?thesis
    by (simp add: deliver_frame_def deliver_frame_msgs_def Let_def deliver_frame_rx_eq
        send_tx_info_frame_nl_def)
qed

text \<open>C7, witness: the broadcast frame of A delivered among the stations A, B and C:
  cloned frames to B and C, then the tx-info to A with the cookie of the message.\<close>
theorem deliver_frame_messages_witness:
  "\<not> isl broadcast_fill
   \<and> flags (projr broadcast_fill) AND HWSIM_TX_STAT_ACK \<noteq> 0
   \<and> sock (deliver_frame (wmediumd_init [sta_A, sta_B, sta_C]) (projr broadcast_fill)) =
       [HWSIM_CMD_FRAME_msg sta_B ([8, 0, 0, 0, 255, 255, 255, 255, 255, 255] @ replicate 14 0) 1 (- 50),
        HWSIM_CMD_FRAME_msg sta_C ([8, 0, 0, 0, 255, 255, 255, 255, 255, 255] @ replicate 14 0) 1 (- 50),
        HWSIM_CMD_TX_INFO_FRAME_msg sta_A 4 35
          [\<lparr>idx = 0, count = 1\<rparr>, \<lparr>idx = - 1, count = 1\<rparr>,
           \<lparr>idx = - 1, count = - 1\<rparr>, \<lparr>idx = - 1, count = - 1\<rparr>] 0x1234]
   \<and> cookie (projr broadcast_fill) = 0x1234"
proof -
  note f = broadcast_fill_fields
  from f(1) have fill: "queue_frame_fill (example_env 100 0 0) (wqueue_init 15 1023)
     (new_frame (example_env 100 0 0) (frame_msg 8 [255, 255, 255, 255, 255, 255] 14 0 one_try) 0)
     = Inr (projr broadcast_fill)"
    by (simp add: broadcast_fill_def)
  note t = deliver_frame_messages [of "wmediumd_init [sta_A, sta_B, sta_C]" "projr broadcast_fill"
      "example_env 100 0 0" "wqueue_init 15 1023"
      "frame_msg 8 [255, 255, 255, 255, 255, 255] 14 0 one_try" 0]
  from t fill have ck: "cookie (projr broadcast_fill) = 0x1234"
    by (simp add: frame_msg_def)
  have "sock (deliver_frame (wmediumd_init [sta_A, sta_B, sta_C]) (projr broadcast_fill)) =
       [HWSIM_CMD_FRAME_msg sta_B ([8, 0, 0, 0, 255, 255, 255, 255, 255, 255] @ replicate 14 0) 1 (- 50),
        HWSIM_CMD_FRAME_msg sta_C ([8, 0, 0, 0, 255, 255, 255, 255, 255, 255] @ replicate 14 0) 1 (- 50),
        HWSIM_CMD_TX_INFO_FRAME_msg sta_A 4 35
          [\<lparr>idx = 0, count = 1\<rparr>, \<lparr>idx = - 1, count = 1\<rparr>,
           \<lparr>idx = - 1, count = - 1\<rparr>, \<lparr>idx = - 1, count = - 1\<rparr>] 0x1234]"
    unfolding conjunct1 [OF t] f(2-7)
    by (simp add: wmediumd_init_def station_init_def memcmp_eq_def ETH_ALEN_def
        is_multicast_ether_addr_def sta_A_def sta_B_def sta_C_def HWSIM_TX_STAT_ACK_def)
  then show ?thesis using f(1,2) ck by (simp add: HWSIM_TX_STAT_ACK_def)
qed

text \<open>
  C8, the code at a failing input. A's data queue holds the two frames of C1, due at
  100 s + 326 us and 100 s + 91 us in this order, and B's data queue a frame due at
  100 s + 92 us, for which the timer is armed. The timer fires at 100 s + 200 us, not
  before its deadline. The handler delivers B's frame, but in A's queue it stops at the
  head, which is not yet due, and leaves the second frame, due since 100 s + 91 us, in
  the queue; the timer is armed again for 100 s + 326 us.
\<close>
theorem timer_fire_leaves_expired_frame:
  "\<not> isl after_long \<and> \<not> isl after_short \<and> \<not> isl after_B
   \<and> map expires (frames (data_queue (stations (projr after_B) ! 0)))
       = [\<lparr>tv_sec = 100, tv_nsec = 326000\<rparr>, \<lparr>tv_sec = 100, tv_nsec = 91000\<rparr>]
   \<and> map expires (frames (data_queue (stations (projr after_B) ! 1)))
       = [\<lparr>tv_sec = 100, tv_nsec = 92000\<rparr>]
   \<and> timerfd (projr after_B) = \<lparr>tv_sec = 100, tv_nsec = 92000\<rparr>
   \<and> \<not> timespec_before (clock_gettime (example_env 100 200000 0)) (timerfd (projr after_B))
   \<and> map expires (frames (data_queue (stations
         (timer_cb (example_env 100 200000 0) (projr after_B)) ! 0)))
       = [\<lparr>tv_sec = 100, tv_nsec = 326000\<rparr>, \<lparr>tv_sec = 100, tv_nsec = 91000\<rparr>]
   \<and> timespec_before \<lparr>tv_sec = 100, tv_nsec = 91000\<rparr> (clock_gettime (example_env 100 200000 0))
   \<and> length (frames (data_queue (stations
         (timer_cb (example_env 100 200000 0) (projr after_B)) ! 1))) = 0
   \<and> sock (timer_cb (example_env 100 200000 0) (projr after_B))
       = [HWSIM_CMD_FRAME_msg sta_A ([8, 0, 0, 0] @ sta_A @ replicate 14 0) 1 (- 50),
          HWSIM_CMD_TX_INFO_FRAME_msg sta_B 4 35
            [\<lparr>idx = 0, count = 1\<rparr>, \<lparr>idx = - 1, count = 1\<rparr>,
             \<lparr>idx = - 1, count = - 1\<rparr>, \<lparr>idx = - 1, count = - 1\<rparr>] 0x1234]
   \<and> timerfd (timer_cb (example_env 100 200000 0) (projr after_B))
       = \<lparr>tv_sec = 100, tv_nsec = 326000\<rparr>"
  by code_simp

text \<open>
  C9, counterexample: the first rung of the ladder names rate index 0, which is in the
  rate table, with count 0. No attempt is simulated, the send time stays 0 and the frame
  is queued with \<open>expires = now\<close> = 100 s, which is before
  \<open>now + difs + pkt_duration (24, 60)\<close> = 100 s + 90 us.
\<close>
theorem expiry_bound_counterexample:
  "\<not> isl after_zero_count
   \<and> index_to_rate_at (sint (idx (zero_count ! 0))) = Some 60
   \<and> map expires (frames (data_queue (stations (projr after_zero_count) ! 0)))
       = [\<lparr>tv_sec = 100, tv_nsec = 0\<rparr>]
   \<and> timespec_add_usec (clock_gettime (example_env 100 0 0)) (difs + pkt_duration 24 60)
       = Inr \<lparr>tv_sec = 100, tv_nsec = 90000\<rparr>
   \<and> timespec_before \<lparr>tv_sec = 100, tv_nsec = 0\<rparr> \<lparr>tv_sec = 100, tv_nsec = 90000\<rparr>"
  by code_simp

text \<open>
  C9, amended: for every frame that \<^verbatim>\<open>queue_frame\<close> enqueues and whose first rung is in
  the rate table with a count of at least 1, the frame appended to the queue has
  \<open>expires \<ge> now + difs + pkt_duration (len, rate_table[ladder[0].idx])\<close>, where \<open>now\<close> is
  the clock reading of the enqueue: the bound itself is computed without overflow,
  \<^verbatim>\<open>timespec_before\<close> does not put the expiry before it, and the same holds of the two
  times counted in nanoseconds.
\<close>
theorem expiry_lower_bound:
  assumes "queue_frame e ctx st frame = Inr ctx'"
    and "st < length (stations ctx)"
    and "index_to_rate_at (sint (idx (tx_rates frame 0))) = Some rate"
    and "1 \<le> unat (count (tx_rates frame 0))"
  shows "\<exists>bound frame'.
      timespec_add_usec (clock_gettime e) (difs + pkt_duration (int (data_len frame)) rate)
        = Inr bound
    \<and> frames (frame_queue (stations ctx' ! st) frame)
        = frames (frame_queue (stations ctx ! st) frame) @ [frame']
    \<and> \<not> timespec_before (expires frame') bound
    \<and> timespec_ns (clock_gettime e)
        + 1000 * (difs + pkt_duration (int (data_len frame)) rate) \<le> timespec_ns (expires frame')"
proof -
  let ?q = "frame_queue (stations ctx ! st) frame"
  let ?d = "difs + pkt_duration (int (data_len frame)) rate"
  from queue_frame_Inr [OF assms(1,2)] obtain frame' where
    fill: "queue_frame_fill e ?q frame = Inr frame'"
    and fr: "frames (frame_queue (stations ctx' ! st) frame) = frames ?q @ [frame']"
    by blast
  from queue_frame_fill_Inr [OF fill] obtain i j and s :: xmit and target where
    loop: "ladder_loop e ?q frame
        (frame_is_mgmt frame \<or> is_multicast_ether_addr (hdr_addr1 frame)) 0 0 (xmit_init ?q)
        = Inr (i, j, s)"
    and tgt: "timespec_add_usec (clock_gettime e) (send_time s) = Inr target"
    and c: "if is_acked s then \<exists>f1. ack_ladder i j frame = Inr f1 \<and> frame' = f1\<lparr>expires := target\<rparr>
        else frame' = frame\<lparr>expires := target\<rparr>"
    by blast
  have ex: "expires frame' = target"
    using c by (auto split: if_splits)
  have "send_time (xmit_init ?q) + ?d \<le> send_time s"
    using ladder_loop_first [OF loop _ _ assms(3)] assms(4)
    by (simp add: IEEE80211_TX_MAX_RATES_def xmit_init_def)
  then have le: "?d \<le> send_time s" by (simp add: xmit_init_def)
  have pos: "0 \<le> ?d"
    using pkt_duration_ge [OF index_to_rate_at_pos [OF assms(3)], of "int (data_len frame)"]
    by (simp add: difs_eq)
  from timespec_add_usec_le [OF tgt pos le] obtain bound where
    b: "timespec_add_usec (clock_gettime e) ?d = Inr bound" by blast
  have nb: "\<not> timespec_before (expires frame') bound"
    unfolding ex by (rule timespec_add_usec_mono [OF b tgt le])
  have ns: "timespec_ns (clock_gettime e) + 1000 * ?d \<le> timespec_ns (expires frame')"
    unfolding ex timespec_add_usec_ns [OF tgt] using le by simp
  show ?thesis
  proof (intro exI conjI)
    show "timespec_add_usec (clock_gettime e) ?d = Inr bound" by (fact b)
    show "frames (frame_queue (stations ctx' ! st) frame) = frames ?q @ [frame']" by (fact fr)
    show "\<not> timespec_before (expires frame') bound" by (fact nb)
    show "timespec_ns (clock_gettime e) + 1000 * ?d \<le> timespec_ns (expires frame')" by (fact ns)
  qed
qed

text \<open>C9, witness: the frame of \<open>after_two_tries\<close>, whose two attempts at rate index 0
  both fail: it expires at 100 s + 367 us, and the bound is 100 s + 90 us.\<close>
theorem expiry_lower_bound_witness:
  "\<not> isl after_two_tries
   \<and> 0 < length (stations (wmediumd_init [sta_A, sta_B]))
   \<and> index_to_rate_at (sint (idx (tx_rates two_tries_frame 0))) = Some 60
   \<and> 1 \<le> unat (count (tx_rates two_tries_frame 0))
   \<and> (\<exists>bound frame'.
        timespec_add_usec (clock_gettime (example_env 100 0 1))
          (difs + pkt_duration (int (data_len two_tries_frame)) 60) = Inr bound
      \<and> frames (frame_queue (stations (projr after_two_tries) ! 0) two_tries_frame)
          = frames (frame_queue (stations (wmediumd_init [sta_A, sta_B]) ! 0) two_tries_frame)
            @ [frame']
      \<and> \<not> timespec_before (expires frame') bound
      \<and> timespec_ns (clock_gettime (example_env 100 0 1))
          + 1000 * (difs + pkt_duration (int (data_len two_tries_frame)) 60)
          \<le> timespec_ns (expires frame'))
   \<and> map expires (frames (data_queue (stations (projr after_two_tries) ! 0)))
       = [\<lparr>tv_sec = 100, tv_nsec = 367000\<rparr>]
   \<and> timespec_add_usec (clock_gettime (example_env 100 0 1))
          (difs + pkt_duration (int (data_len two_tries_frame)) 60)
       = Inr \<lparr>tv_sec = 100, tv_nsec = 90000\<rparr>"
proof -
  have ok: "\<not> isl after_two_tries" by code_simp
  then have h1: "queue_frame (example_env 100 0 1) (wmediumd_init [sta_A, sta_B]) 0 two_tries_frame
      = Inr (projr after_two_tries)"
    by (simp add: after_two_tries_def)
  have h2: "0 < length (stations (wmediumd_init [sta_A, sta_B]))"
    by (simp add: wmediumd_init_def)
  have h3: "index_to_rate_at (sint (idx (tx_rates two_tries_frame 0))) = Some 60" by code_simp
  have h4: "1 \<le> unat (count (tx_rates two_tries_frame 0))" by code_simp
  have v1: "map expires (frames (data_queue (stations (projr after_two_tries) ! 0)))
       = [\<lparr>tv_sec = 100, tv_nsec = 367000\<rparr>]" by code_simp
  have v2: "timespec_add_usec (clock_gettime (example_env 100 0 1))
          (difs + pkt_duration (int (data_len two_tries_frame)) 60)
       = Inr \<lparr>tv_sec = 100, tv_nsec = 90000\<rparr>" by code_simp
  note ex = expiry_lower_bound [OF h1 h2 h3 h4]
  show ?thesis
    by (intro conjI) (fact ok, fact h2, fact h3, fact h4, fact ex, fact v1, fact v2)
qed

text \<open>
  C10. Let a frame message name a registered transmitter, and let \<^verbatim>\<open>process_messages_cb\<close>
  complete. Then one frame has been appended to the sender's queue; its flags are the
  incoming flags, or the incoming flags with the ACK bit set in addition, so no bit is
  cleared; when that frame is delivered, in any context, the last message sent is the
  tx-info with these flags and the cookie of the message; and if the incoming flags
  already had the ACK bit, the delivery sends a cloned frame with the payload of the
  message to every matching station, whatever the attempts did.
\<close>
theorem incoming_flags_kept:
  assumes "cmd m = HWSIM_CMD_FRAME" and "in_addr_transmitter m = Some src"
    and "get_station_by_addr ctx src = Some sndr" and "malloc_ok e"
    and "process_messages_cb e ctx m = Inr ctx'"
  shows "\<exists>frame'.
      frames (frame_queue (stations ctx' ! sndr) (new_frame e m sndr))
        = frames (frame_queue (stations ctx ! sndr) (new_frame e m sndr)) @ [frame']
    \<and> (flags frame' = in_flags m \<or> flags frame' = in_flags m OR HWSIM_TX_STAT_ACK)
    \<and> (\<forall>c. last (deliver_frame_msgs c frame') =
          HWSIM_CMD_TX_INFO_FRAME_msg (addr (stations c ! sndr)) (flags frame') 35
            (map (tx_rates frame') [0 ..< IEEE80211_TX_MAX_RATES]) (in_cookie m))
    \<and> (in_flags m AND HWSIM_TX_STAT_ACK \<noteq> 0 \<longrightarrow>
         (\<forall>c. \<forall>station \<in> set (stations c).
            \<not> memcmp_eq (addr (stations c ! sndr)) (addr station) ETH_ALEN \<and>
            (is_multicast_ether_addr (hdr_addr1 frame') \<or>
             memcmp_eq (hdr_addr1 frame') (addr station) ETH_ALEN) \<longrightarrow>
            HWSIM_CMD_FRAME_msg (addr station) (in_frame m) 1 (- 50)
              \<in> set (deliver_frame_msgs c frame')))"
proof -
  let ?f = "new_frame e m sndr"
  from assms have q: "queue_frame e ctx sndr ?f = Inr ctx'"
    by (simp add: process_messages_cb_queue)
  from get_station_by_addr_Some [OF assms(3)] have len: "sndr < length (stations ctx)" by simp
  from queue_frame_Inr [OF q len] obtain f' where
    fill: "queue_frame_fill e (frame_queue (stations ctx ! sndr) ?f) ?f = Inr f'"
    and fr: "frames (frame_queue (stations ctx' ! sndr) ?f)
        = frames (frame_queue (stations ctx ! sndr) ?f) @ [f']"
    by blast
  have fl: "flags f' = in_flags m \<or> flags f' = in_flags m OR HWSIM_TX_STAT_ACK"
    using queue_frame_fill_flags [OF fill] by (simp add: new_frame_def)
  have keep: "cookie f' = in_cookie m" "sender f' = sndr"
    "map (data f') [0 ..< data_len f'] = in_frame m"
    using queue_frame_fill_keeps [OF fill] new_frame_payload [of e m sndr]
    by (simp_all add: new_frame_def)
  have tx: "\<forall>c. last (deliver_frame_msgs c f') =
          HWSIM_CMD_TX_INFO_FRAME_msg (addr (stations c ! sndr)) (flags f') 35
            (map (tx_rates f') [0 ..< IEEE80211_TX_MAX_RATES]) (in_cookie m)"
    by (simp add: deliver_frame_msgs_last keep)
  have cl: "in_flags m AND HWSIM_TX_STAT_ACK \<noteq> 0 \<longrightarrow>
         (\<forall>c. \<forall>station \<in> set (stations c).
            \<not> memcmp_eq (addr (stations c ! sndr)) (addr station) ETH_ALEN \<and>
            (is_multicast_ether_addr (hdr_addr1 f') \<or>
             memcmp_eq (hdr_addr1 f') (addr station) ETH_ALEN) \<longrightarrow>
            HWSIM_CMD_FRAME_msg (addr station) (in_frame m) 1 (- 50)
              \<in> set (deliver_frame_msgs c f'))"
  proof (intro impI allI ballI)
    fix c :: wmediumd and station :: station
    assume a: "in_flags m AND HWSIM_TX_STAT_ACK \<noteq> 0" "station \<in> set (stations c)"
      "\<not> memcmp_eq (addr (stations c ! sndr)) (addr station) ETH_ALEN \<and>
            (is_multicast_ether_addr (hdr_addr1 f') \<or>
             memcmp_eq (hdr_addr1 f') (addr station) ETH_ALEN)"
    from ack_flag_kept [OF a(1) fl] have "flags f' AND HWSIM_TX_STAT_ACK \<noteq> 0" .
    from deliver_frame_msgs_cloned [OF this a(2), unfolded keep] a(3)
    show "HWSIM_CMD_FRAME_msg (addr station) (in_frame m) 1 (- 50)
              \<in> set (deliver_frame_msgs c f')"
      by simp
  qed
  show ?thesis
    by (rule exI [of _ f'], intro conjI) (fact fr, fact fl, fact tx, fact cl)
qed

text \<open>C10, witness: the frame of \<open>after_unacked\<close>, whose two attempts both fail and
  whose incoming flags carry the ACK bit; the timer fire at 200 s sends a cloned frame
  to B and the tx-info with the unchanged ladder and flags.\<close>
theorem incoming_flags_kept_witness:
  "cmd (frame_msg 8 sta_B 14 4 two_tries) = HWSIM_CMD_FRAME
   \<and> in_addr_transmitter (frame_msg 8 sta_B 14 4 two_tries) = Some sta_A
   \<and> get_station_by_addr (wmediumd_init [sta_A, sta_B]) sta_A = Some 0
   \<and> malloc_ok (example_env 100 0 1)
   \<and> \<not> isl after_unacked
   \<and> in_flags (frame_msg 8 sta_B 14 4 two_tries) AND HWSIM_TX_STAT_ACK \<noteq> 0
   \<and> (\<exists>frame'.
      frames (frame_queue (stations (projr after_unacked) ! 0)
          (new_frame (example_env 100 0 1) (frame_msg 8 sta_B 14 4 two_tries) 0))
        = frames (frame_queue (stations (wmediumd_init [sta_A, sta_B]) ! 0)
            (new_frame (example_env 100 0 1) (frame_msg 8 sta_B 14 4 two_tries) 0)) @ [frame']
    \<and> (flags frame' = in_flags (frame_msg 8 sta_B 14 4 two_tries) \<or>
        flags frame' = in_flags (frame_msg 8 sta_B 14 4 two_tries) OR HWSIM_TX_STAT_ACK)
    \<and> (\<forall>c. last (deliver_frame_msgs c frame') =
          HWSIM_CMD_TX_INFO_FRAME_msg (addr (stations c ! 0)) (flags frame') 35
            (map (tx_rates frame') [0 ..< IEEE80211_TX_MAX_RATES])
            (in_cookie (frame_msg 8 sta_B 14 4 two_tries)))
    \<and> (\<forall>c. \<forall>station \<in> set (stations c).
            \<not> memcmp_eq (addr (stations c ! 0)) (addr station) ETH_ALEN \<and>
            (is_multicast_ether_addr (hdr_addr1 frame') \<or>
             memcmp_eq (hdr_addr1 frame') (addr station) ETH_ALEN) \<longrightarrow>
            HWSIM_CMD_FRAME_msg (addr station) (in_frame (frame_msg 8 sta_B 14 4 two_tries)) 1 (- 50)
              \<in> set (deliver_frame_msgs c frame')))
   \<and> sock (timer_cb (example_env 200 0 1) (projr after_unacked)) =
       [HWSIM_CMD_FRAME_msg sta_B ([8, 0, 0, 0] @ sta_B @ replicate 14 0) 1 (- 50),
        HWSIM_CMD_TX_INFO_FRAME_msg sta_A 4 35 two_tries 0x1234]"
proof -
  let ?m = "frame_msg 8 sta_B 14 4 two_tries"
  have h1: "cmd ?m = HWSIM_CMD_FRAME" by (simp add: frame_msg_def)
  have h2: "in_addr_transmitter ?m = Some sta_A" by (simp add: frame_msg_def)
  note h3 = get_station_by_addr_A
  have h4: "malloc_ok (example_env 100 0 1)" by (simp add: example_env_def)
  have ok: "\<not> isl after_unacked" by code_simp
  then have h5: "process_messages_cb (example_env 100 0 1) (wmediumd_init [sta_A, sta_B]) ?m
      = Inr (projr after_unacked)"
    by (simp add: after_unacked_def)
  have h6: "in_flags ?m AND HWSIM_TX_STAT_ACK \<noteq> 0"
    by (simp add: frame_msg_def HWSIM_TX_STAT_ACK_def)
  have run: "sock (timer_cb (example_env 200 0 1) (projr after_unacked)) =
       [HWSIM_CMD_FRAME_msg sta_B ([8, 0, 0, 0] @ sta_B @ replicate 14 0) 1 (- 50),
        HWSIM_CMD_TX_INFO_FRAME_msg sta_A 4 35 two_tries 0x1234]"
    by code_simp
  from incoming_flags_kept [OF h1 h2 h3 h4 h5] h6
  have ex: "\<exists>frame'.
      frames (frame_queue (stations (projr after_unacked) ! 0)
          (new_frame (example_env 100 0 1) ?m 0))
        = frames (frame_queue (stations (wmediumd_init [sta_A, sta_B]) ! 0)
            (new_frame (example_env 100 0 1) ?m 0)) @ [frame']
    \<and> (flags frame' = in_flags ?m \<or> flags frame' = in_flags ?m OR HWSIM_TX_STAT_ACK)
    \<and> (\<forall>c. last (deliver_frame_msgs c frame') =
          HWSIM_CMD_TX_INFO_FRAME_msg (addr (stations c ! 0)) (flags frame') 35
            (map (tx_rates frame') [0 ..< IEEE80211_TX_MAX_RATES]) (in_cookie ?m))
    \<and> (\<forall>c. \<forall>station \<in> set (stations c).
            \<not> memcmp_eq (addr (stations c ! 0)) (addr station) ETH_ALEN \<and>
            (is_multicast_ether_addr (hdr_addr1 frame') \<or>
             memcmp_eq (hdr_addr1 frame') (addr station) ETH_ALEN) \<longrightarrow>
            HWSIM_CMD_FRAME_msg (addr station) (in_frame ?m) 1 (- 50)
              \<in> set (deliver_frame_msgs c frame'))"
    by (elim exE conjE, intro exI conjI) (assumption, assumption, assumption, blast)
  show ?thesis
    by (intro conjI) (fact h1, fact h2, fact h3, fact h4, fact ok, fact h6, fact ex, fact run)
qed

end
